theory Spec2Isabelle
  imports Complex_Main
begin

section \<open>Data model\<close>

text \<open>
  The development follows \<^verbatim>\<open>src/components/CyberCanvas.tsx\<close>. JavaScript numbers are
  modelled as mathematical reals (no rounding, no NaN, no infinities); every division of
  the source whose divisor can be zero is discussed where it occurs. Array indices and
  counts are natural numbers.

  \<^verbatim>\<open>Math.random()\<close> is modelled by an explicit source of future draws: the stream
  \<open>g\<close> gives the next result as \<open>g 0\<close>, the one after as \<open>g 1\<close>, and so on. Every
  function that calls \<^verbatim>\<open>Math.random()\<close> takes the stream and returns what is left of
  it. The contract of \<^verbatim>\<open>Math.random()\<close> (a result in \<open>[0, 1)\<close>) is the predicate
  \<open>unit_rng\<close>.
\<close>

type_synonym rng = "nat \<Rightarrow> real"

definition random :: "rng \<Rightarrow> real \<times> rng" where
  "random g = (g 0, \<lambda>n. g (Suc n))"

definition unit_rng :: "rng \<Rightarrow> bool" where
  "unit_rng g \<longleftrightarrow> (\<forall>n. 0 \<le> g n \<and> g n < 1)"

text \<open>\<^verbatim>\<open>export type VisualStyle = 'network' | 'bokeh' | 'matrix' | 'vortex' | 'nova'\<close>\<close>

datatype VisualStyle = Network | Bokeh | Matrix | Vortex | Nova

text \<open>
  \<^verbatim>\<open>class Particle\<close>. The fields \<^verbatim>\<open>x\<close>, \<^verbatim>\<open>y\<close>, \<^verbatim>\<open>z\<close> and \<^verbatim>\<open>size\<close> are called
  \<open>px\<close>, \<open>py\<close>, \<open>pz\<close> and \<open>psize\<close> here (a record field is a global constant, and
  \<open>size\<close> is one of HOL's); \<^verbatim>\<open>number | null\<close> is \<open>real option\<close>.
\<close>

record Particle =
  px :: real
  py :: real
  pz :: real
  vx :: real
  vy :: real
  psize :: real
  angle :: real
  radius :: real
  targetX :: "real option"
  targetY :: "real option"

text \<open>
  \<^verbatim>\<open>Math.atan2(y, x)\<close>, by its defining cases on the quadrant of \<open>(x, y)\<close> (signed zeros
  are not distinguished).
\<close>

definition atan2 :: "real \<Rightarrow> real \<Rightarrow> real" where
  "atan2 y x =
     (if 0 < x then arctan (y / x)
      else if x < 0 \<and> 0 \<le> y then arctan (y / x) + pi
      else if x < 0 \<and> y < 0 then arctan (y / x) - pi
      else if 0 < y then pi / 2
      else if y < 0 then - (pi / 2)
      else 0)"

section \<open>Particle: construction\<close>

text \<open>
  \<^verbatim>\<open>resetVelocity(style)\<close>: the direction is drawn first, for every style; the vortex
  style matches no branch and keeps the velocity it has.
\<close>

definition resetVelocity :: "VisualStyle \<Rightarrow> Particle \<Rightarrow> rng \<Rightarrow> Particle \<times> rng" where
  "resetVelocity style p g =
     (let (r0, g0) = random g;
          direction = (if r0 > 0.5 then 1 else - 1 :: real);
          baseSpeed = (0.5 :: real)
      in if style = Network then
           (let (r1, g1) = random g0;
                (r2, g2) = random g1
            in (p\<lparr>vx := (r1 * baseSpeed + 0.1) * direction,
                   vy := (r2 * baseSpeed + 0.1) * direction\<rparr>, g2))
         else if style = Bokeh then
           (let (r1, g1) = random g0;
                (r2, g2) = random g1
            in (p\<lparr>vx := r1 * 0.2 - 0.1, vy := r2 * (- 0.5) - 0.2\<rparr>, g2))
         else if style = Matrix then
           (let (r1, g1) = random g0
            in (p\<lparr>vx := 0, vy := r1 * 5 + 2\<rparr>, g1))
         else if style = Nova then
           (let (r1, g1) = random g0;
                (r2, g2) = random g1
            in (p\<lparr>vx := r1 * 2 - 1, vy := r2 * 2 - 1\<rparr>, g2))
         else (p, g0))"

text \<open>\<^verbatim>\<open>constructor(width, height, style)\<close>, lines 31 to 55.\<close>

definition Particle_new :: "real \<Rightarrow> real \<Rightarrow> VisualStyle \<Rightarrow> rng \<Rightarrow> Particle \<times> rng" where
  "Particle_new width height style g =
     (let (r1, g1) = random g;
          (r2, g2) = random g1;
          (r3, g3) = random g2;
          (r4, g4) = random g3;
          x0 = r1 * width;
          y0 = r2 * height;
          dx = x0 - width / 2;
          dy = y0 - height / 2;
          p0 = \<lparr>px = x0, py = y0, pz = r3 * 2 + 0.5, vx = 0, vy = 0,
                psize = r4 * 2 + 0.5,
                angle = atan2 dy dx, radius = sqrt (dx * dx + dy * dy),
                targetX = None, targetY = None\<rparr>;
          (p1, g5) = resetVelocity style p0 g4
      in if style = Bokeh then
           (let (r5, g6) = random g5;
                (r6, g7) = random g6
            in (p1\<lparr>psize := r5 * 15 + 5, pz := r6 * 1.5 + 0.5\<rparr>, g7))
         else (p1, g5))"

section \<open>Particle: the per-tick update\<close>

text \<open>
  \<^verbatim>\<open>update(width, height, speedMultiplier, scaleRatio, style)\<close>, lines 77 to 145, one
  definition per branch. The morph branch is taken when both targets are non-null and
  returns before the style is looked at.
\<close>

definition update_morph :: "real \<Rightarrow> real \<Rightarrow> real \<Rightarrow> real \<Rightarrow> Particle \<Rightarrow> rng \<Rightarrow> Particle \<times> rng" where
  "update_morph effectiveSpeed scaleRatio tx ty p g =
     (let dx = tx - px p;
          dy = ty - py p;
          x1 = px p + dx * 0.05 * effectiveSpeed;
          y1 = py p + dy * 0.05 * effectiveSpeed;
          (r1, g1) = random g;
          x2 = x1 + (r1 - 0.5) * 0.5 * scaleRatio;
          (r2, g2) = random g1;
          y2 = y1 + (r2 - 0.5) * 0.5 * scaleRatio
      in (p\<lparr>px := x2, py := y2, pz := pz p + (1.0 - pz p) * 0.05\<rparr>, g2))"

text \<open>
  The vortex branch divides by \<^verbatim>\<open>this.z\<close>; the depth is positive for every particle the
  constructor builds and every update keeps it so (shown below), so the divisor is never
  zero on a reachable particle. \<open>cos\<close> and \<open>sin\<close> stand for \<^verbatim>\<open>Math.cos\<close> and
  \<^verbatim>\<open>Math.sin\<close>, whose results are rounded: what is stated below about the vortex
  branch is the formula of the new position, not an identity of trigonometry (the
  recomputed point lies at distance \<open>\<bar>radius\<bar>\<close> from the centre only up to rounding).
\<close>

definition update_vortex :: "real \<Rightarrow> real \<Rightarrow> real \<Rightarrow> Particle \<Rightarrow> Particle" where
  "update_vortex width height effectiveSpeed p =
     (let a = angle p + (0.005 * effectiveSpeed) / pz p
      in p\<lparr>angle := a,
            px := width / 2 + cos a * radius p,
            py := height / 2 + sin a * radius p\<rparr>)"

text \<open>
  The nova branch: \<^verbatim>\<open>Math.sqrt(dx*dx + dy*dy) || 1\<close> replaces a zero distance by 1, so
  the two divisions by \<^verbatim>\<open>dist\<close> never divide by zero.
\<close>

definition update_nova :: "real \<Rightarrow> real \<Rightarrow> real \<Rightarrow> Particle \<Rightarrow> rng \<Rightarrow> Particle \<times> rng" where
  "update_nova width height effectiveSpeed p g =
     (let dx = px p - width / 2;
          dy = py p - height / 2;
          d = sqrt (dx * dx + dy * dy);
          dist = (if d = 0 then 1 else d);
          vx1 = (dx / dist) * 2;
          vy1 = (dy / dist) * 2;
          x1 = px p + vx1 * effectiveSpeed;
          y1 = py p + vy1 * effectiveSpeed;
          p1 = p\<lparr>vx := vx1, vy := vy1, px := x1, py := y1\<rparr>
      in if x1 < - 100 \<or> x1 > width + 100 \<or> y1 < - 100 \<or> y1 > height + 100 then
           (let (r1, g1) = random g;
                (r2, g2) = random g1
            in (p1\<lparr>px := width / 2 + (r1 * 20 - 10),
                    py := height / 2 + (r2 * 20 - 10)\<rparr>, g2))
         else (p1, g))"

text \<open>
  The linear branch (network, bokeh, matrix): translation, then the wrap tests in the
  order of the source, each on the value the previous one left.
\<close>

definition update_linear :: "real \<Rightarrow> real \<Rightarrow> real \<Rightarrow> VisualStyle \<Rightarrow> Particle \<Rightarrow> Particle" where
  "update_linear width height effectiveSpeed style p =
     (let x1 = px p + vx p * effectiveSpeed;
          y1 = py p + vy p * effectiveSpeed;
          x2 = (if x1 < - 50 then width + 50 else x1);
          x3 = (if x2 > width + 50 then - 50 else x2);
          y3 = (if style = Bokeh then (if y1 < - 50 then height + 50 else y1)
                else if style = Matrix then (if y1 > height + 50 then - 50 else y1)
                else (let y2 = (if y1 < - 50 then height + 50 else y1)
                      in if y2 > height + 50 then - 50 else y2))
      in p\<lparr>px := x3, py := y3\<rparr>)"

definition update :: "real \<Rightarrow> real \<Rightarrow> real \<Rightarrow> real \<Rightarrow> VisualStyle \<Rightarrow> Particle \<Rightarrow> rng \<Rightarrow> Particle \<times> rng" where
  "update width height speedMultiplier scaleRatio style p g =
     (let effectiveSpeed = speedMultiplier * scaleRatio
      in case (targetX p, targetY p) of
           (Some tx, Some ty) \<Rightarrow> update_morph effectiveSpeed scaleRatio tx ty p g
         | _ \<Rightarrow>
           if style = Vortex then (update_vortex width height effectiveSpeed p, g)
           else if style = Nova then update_nova width height effectiveSpeed p g
           else (update_linear width height effectiveSpeed style p, g))"

section \<open>Configuration\<close>

text \<open>
  \<^verbatim>\<open>interface Resolution\<close> and \<^verbatim>\<open>interface VisualizerConfig\<close> (the fields carry a prefix,
  since a record field is a global constant). The label, the theme and the seed take no
  part in the simulation and are left out. Width and height are natural numbers: they are
  assigned to \<^verbatim>\<open>canvas.width\<close> and \<^verbatim>\<open>canvas.height\<close>, which hold unsigned integers,
  and every entry of \<^verbatim>\<open>RESOLUTIONS\<close> is one. The particle count is a natural number
  (the control surface stores \<^verbatim>\<open>Math.floor\<close> of it). A JavaScript string is truthy iff
  it is not empty.
\<close>

record Resolution =
  res_width :: nat
  res_height :: nat

record VisualizerConfig =
  cfg_resolution :: Resolution
  cfg_style :: VisualStyle
  cfg_particleCount :: nat
  cfg_speed :: real
  cfg_connectionDistance :: real
  cfg_text :: string

text \<open>\<^verbatim>\<open>const scaleRatio = canvas.width / 1920\<close>, line 366: the divisor is a constant.\<close>

definition scaleRatio :: "nat \<Rightarrow> real" where
  "scaleRatio canvas_width = real canvas_width / 1920"

section \<open>The particle collection\<close>

text \<open>
  The loop \<^verbatim>\<open>for (let i = start; i < targetCount; i++) currentParticles.push(new Particle(...))\<close>
  of lines 200 to 202 and 210 to 212.
\<close>

function push_particles ::
  "nat \<Rightarrow> nat \<Rightarrow> real \<Rightarrow> real \<Rightarrow> VisualStyle \<Rightarrow> Particle list \<Rightarrow> rng \<Rightarrow> Particle list \<times> rng" where
  "push_particles i targetCount w h style ps g =
     (if i < targetCount then
        (case Particle_new w h style g of
           (p, g') \<Rightarrow> push_particles (Suc i) targetCount w h style (ps @ [p]) g')
      else (ps, g))"
  by pat_completeness auto
termination
  by (relation "measure (\<lambda>(i, targetCount, w, h, style, ps, g). targetCount - i)") auto

declare push_particles.simps [simp del]

text \<open>
  \<^verbatim>\<open>initParticles(width, height)\<close>, lines 192 to 216; the collection
  \<^verbatim>\<open>particlesRef.current\<close> and the random source are passed in and returned.
\<close>

definition initParticles ::
  "VisualizerConfig \<Rightarrow> real \<Rightarrow> real \<Rightarrow> Particle list \<Rightarrow> rng \<Rightarrow> Particle list \<times> rng" where
  "initParticles config w h currentParticles g =
     (let targetCount = cfg_particleCount config;
          (ps1, g1) =
            (if length currentParticles < targetCount then
               push_particles (length currentParticles) targetCount w h (cfg_style config)
                 currentParticles g
             else if length currentParticles > targetCount then
               (take targetCount currentParticles, g)
             else (currentParticles, g))
      in if length ps1 = 0 then
           push_particles 0 targetCount w h (cfg_style config) ps1 g1
         else (ps1, g1))"

section \<open>One frame\<close>

text \<open>
  The particle loop of \<^verbatim>\<open>animate\<close>, lines 388 to 414, without the drawing: the
  recursion runs over the particles from index \<open>i\<close> on and carries \<^verbatim>\<open>textPIndex\<close>. A
  text point is a pair \<open>(x, y)\<close>. The index \<^verbatim>\<open>textPIndex % textPoints.length\<close> is in
  range, since it is read only when the length is positive.
\<close>

fun animate_particles ::
  "(real \<times> real) list \<Rightarrow> real \<Rightarrow> real \<Rightarrow> real \<Rightarrow> real \<Rightarrow> VisualStyle \<Rightarrow> nat \<Rightarrow> nat \<Rightarrow>
     Particle list \<Rightarrow> rng \<Rightarrow> Particle list \<times> rng" where
  "animate_particles textPoints w h spd sr style i textPIndex [] g = ([], g)"
| "animate_particles textPoints w h spd sr style i textPIndex (p # ps) g =
     (let assigned = (length textPoints > 0 \<and> i mod 5 \<noteq> 0);
          isBackground = (\<not> assigned);
          targetIndex = textPIndex mod length textPoints;
          p1 = (if assigned then
                  p\<lparr>targetX := Some (fst (textPoints ! targetIndex)),
                     targetY := Some (snd (textPoints ! targetIndex))\<rparr>
                else p);
          textPIndex1 = (if assigned then textPIndex + 1 else textPIndex);
          p2 = (if isBackground then p1\<lparr>targetX := None, targetY := None\<rparr> else p1)
      in case update w h spd sr style p2 g of
           (p3, g1) \<Rightarrow>
             (case animate_particles textPoints w h spd sr style (Suc i) textPIndex1 ps g1 of
                (rest, g2) \<Rightarrow> (p3 # rest, g2)))"

text \<open>
  The connection loop, lines 421 to 448. An edge records the two indices, the value of
  the local \<^verbatim>\<open>opacity\<close> and the alpha of the stroke style, \<^verbatim>\<open>opacity * 0.25\<close>. The
  division by \<^verbatim>\<open>distLimit\<close> is reached only under \<^verbatim>\<open>distance < distLimit\<close>, where the
  limit is positive.
\<close>

record Edge =
  e_i :: nat
  e_j :: nat
  e_opacity :: real
  e_alpha :: real

fun connect_inner :: "Particle list \<Rightarrow> real \<Rightarrow> nat \<Rightarrow> nat list \<Rightarrow> Edge list" where
  "connect_inner ps distLimit i [] = []"
| "connect_inner ps distLimit i (j # js) =
     (let dx = px (ps ! i) - px (ps ! j);
          dy = py (ps ! i) - py (ps ! j)
      in if \<bar>dx\<bar> > distLimit \<or> \<bar>dy\<bar> > distLimit then connect_inner ps distLimit i js
         else
           (let distance = sqrt (dx * dx + dy * dy)
            in if distance < distLimit then
                 (let opacity = 1 - distance / distLimit
                  in \<lparr>e_i = i, e_j = j, e_opacity = opacity, e_alpha = opacity * 0.25\<rparr>
                       # connect_inner ps distLimit i js)
               else connect_inner ps distLimit i js))"

fun connect_outer :: "Particle list \<Rightarrow> real \<Rightarrow> nat list \<Rightarrow> Edge list" where
  "connect_outer ps distLimit [] = []"
| "connect_outer ps distLimit (i # is) =
     (if pz (ps ! i) > 1.8 then connect_outer ps distLimit is
      else connect_inner ps distLimit i [Suc i ..< length ps] @ connect_outer ps distLimit is)"

definition connections :: "Particle list \<Rightarrow> real \<Rightarrow> Edge list" where
  "connections ps distLimit = connect_outer ps distLimit [0 ..< length ps]"

text \<open>
  \<^verbatim>\<open>effectiveConnectionDist\<close> (line 367) and \<^verbatim>\<open>distLimit\<close> (lines 429 and 430).
\<close>

definition distLimit :: "VisualizerConfig \<Rightarrow> nat \<Rightarrow> real" where
  "distLimit config canvas_width =
     (let effectiveConnectionDist = cfg_connectionDistance config * scaleRatio canvas_width
      in if cfg_text config \<noteq> [] then effectiveConnectionDist * 0.6
         else effectiveConnectionDist)"

text \<open>
  One call of \<^verbatim>\<open>animate\<close>: the particle loop, then the connection loop under its guard
  of line 418. The result holds the particles, the random source and the edges drawn,
  \<open>None\<close> when the connection block is skipped.
\<close>

definition animate ::
  "VisualizerConfig \<Rightarrow> (real \<times> real) list \<Rightarrow> Particle list \<Rightarrow> rng \<Rightarrow>
     Particle list \<times> rng \<times> Edge list option" where
  "animate config textPoints ps g =
     (let cw = res_width (cfg_resolution config);
          ch = res_height (cfg_resolution config)
      in case animate_particles textPoints (real cw) (real ch) (cfg_speed config)
                (scaleRatio cw) (cfg_style config) 0 0 ps g of
           (ps', g') \<Rightarrow>
             (ps', g',
              if cfg_style config = Network \<or> cfg_text config \<noteq> [] then
                Some (connections ps' (distLimit config cw))
              else None))"

text \<open>\<open>n\<close> frames of the render loop, each scheduling the next.\<close>

fun frames ::
  "nat \<Rightarrow> VisualizerConfig \<Rightarrow> (real \<times> real) list \<Rightarrow> Particle list \<Rightarrow> rng \<Rightarrow> Particle list \<times> rng" where
  "frames 0 config textPoints ps g = (ps, g)"
| "frames (Suc n) config textPoints ps g =
     (case animate config textPoints ps g of
        (ps', g', drawn) \<Rightarrow> frames n config textPoints ps' g')"

text \<open>
  The render effect, lines 355 to 461: the canvas takes the size of the resolution,
  \<^verbatim>\<open>initParticles(canvas.width, canvas.height)\<close> reconciles the collection it finds,
  and the frame loop starts; \<open>n\<close> is the number of frames rendered before the effect is
  cleaned up. The text points do not change while one effect runs (a change of the
  configuration restarts it).
\<close>

definition render_effect ::
  "nat \<Rightarrow> VisualizerConfig \<Rightarrow> (real \<times> real) list \<Rightarrow> Particle list \<Rightarrow> rng \<Rightarrow> Particle list \<times> rng" where
  "render_effect n config textPoints ps g =
     (let cw = res_width (cfg_resolution config);
          ch = res_height (cfg_resolution config)
      in case initParticles config (real cw) (real ch) ps g of
           (ps1, g1) \<Rightarrow> frames n config textPoints ps1 g1)"

section \<open>Text to points\<close>

text \<open>
  \<^verbatim>\<open>processText\<close>, lines 225 to 292, draws the text on a temporary canvas and reads the
  pixels back. What the browser's canvas computes is a parameter of the model: whether
  \<^verbatim>\<open>getContext('2d')\<close> gives a context, the width \<^verbatim>\<open>measureText\<close> reports for the
  text at \<^verbatim>\<open>bold 250px\<close>, and the array \<^verbatim>\<open>getImageData\<close> returns once the text is
  drawn at the final font size (an index outside the array reads \<^verbatim>\<open>undefined\<close>, here
  \<open>None\<close>, and \<^verbatim>\<open>undefined > 128\<close> is false).
\<close>

record Canvas2D =
  ctx_ok :: bool
  measured_width :: real
  image_data :: "int \<Rightarrow> int \<Rightarrow> nat option"

text \<open>
  The scan loops, lines 272 to 283. \<open>k\<close> is \<^verbatim>\<open>Math.floor(fontSize / 40)\<close> and the step
  of both loops is \<^verbatim>\<open>gap = Math.max(2, k)\<close>; \<^verbatim>\<open>scanWidth\<close> is the constant 800. The
  division by \<^verbatim>\<open>scanHeight\<close> is reached only under \<^verbatim>\<open>y < scanHeight\<close> with \<open>0 \<le> y\<close>.
\<close>

function scan_row ::
  "(int \<Rightarrow> nat option) \<Rightarrow> real \<Rightarrow> real \<Rightarrow> real \<Rightarrow> int \<Rightarrow> int \<Rightarrow> int \<Rightarrow> (real \<times> real) list" where
  "scan_row imageData scanHeight rw rh k y x =
     (if x < 800 then
        (if (case imageData ((y * 800 + x) * 4 + 3) of Some a \<Rightarrow> a > 128 | None \<Rightarrow> False)
         then [(real_of_int x / 800 * rw, real_of_int y / scanHeight * rh)]
         else [])
        @ scan_row imageData scanHeight rw rh k y (x + max 2 k)
      else [])"
  by pat_completeness auto
termination
  by (relation "measure (\<lambda>(imageData, scanHeight, rw, rh, k, y, x). nat (800 - x))") auto

declare scan_row.simps [simp del]

function scan_rows ::
  "(int \<Rightarrow> nat option) \<Rightarrow> real \<Rightarrow> real \<Rightarrow> real \<Rightarrow> int \<Rightarrow> int \<Rightarrow> (real \<times> real) list" where
  "scan_rows imageData scanHeight rw rh k y =
     (if real_of_int y < scanHeight then
        scan_row imageData scanHeight rw rh k y 0
        @ scan_rows imageData scanHeight rw rh k (y + max 2 k)
      else [])"
  by pat_completeness auto
termination
  by (relation "measure (\<lambda>(imageData, scanHeight, rw, rh, k, y). nat (\<lceil>scanHeight\<rceil> - y))")
    (auto simp add: less_ceiling_iff)

declare scan_rows.simps [simp del]

text \<open>
  The shuffle, lines 286 to 289: \<open>shuffle m\<close> runs the loop body for
  \<open>i = m, m - 1, \<dots>, 1\<close>. With a draw in \<open>[0, 1)\<close> the index \<open>j\<close> is at most \<open>i\<close>.
\<close>

fun shuffle :: "nat \<Rightarrow> 'a list \<Rightarrow> rng \<Rightarrow> 'a list \<times> rng" where
  "shuffle 0 points g = (points, g)"
| "shuffle (Suc n) points g =
     (case random g of
        (r, g1) \<Rightarrow>
          (let i = Suc n;
               j = nat \<lfloor>r * (real i + 1)\<rfloor>
           in shuffle n (points[i := points ! j, j := points ! i]) g1))"

text \<open>
  \<^verbatim>\<open>processText\<close>. Without a context it returns before \<^verbatim>\<open>textPointsRef.current\<close> is
  assigned, so the old points stay. The call
  \<^verbatim>\<open>getImageData(0, 0, scanWidth, scanHeight)\<close> of line 265 raises when its height
  argument is not a finite number or is cut to zero: with a zero width or height (then
  \<^verbatim>\<open>aspectRatio\<close> or \<^verbatim>\<open>scanHeight\<close> comes from a division by zero and
  \<^verbatim>\<open>scanHeight\<close> is an infinity, NaN or 0), and with \<^verbatim>\<open>scanHeight < 1\<close> (a surface
  more than 800 times as wide as high). The exception leaves \<^verbatim>\<open>processText\<close> before
  any point is published: the result is \<open>None\<close>.
\<close>

definition processText ::
  "Canvas2D \<Rightarrow> VisualizerConfig \<Rightarrow> (real \<times> real) list \<Rightarrow> rng \<Rightarrow>
     ((real \<times> real) list \<times> rng) option" where
  "processText canvas config textPoints g =
     (if \<not> ctx_ok canvas then Some (textPoints, g)
      else
        (let rw = res_width (cfg_resolution config);
             rh = res_height (cfg_resolution config)
         in if rw = 0 \<or> rh = 0 then None
            else
              (let scanWidth = (800 :: real);
                   aspectRatio = real rw / real rh;
                   scanHeight = scanWidth / aspectRatio;
                   padding = (50 :: real);
                   maxWidth = scanWidth - padding * 2;
                   fontSize = (if measured_width canvas > maxWidth
                               then \<lfloor>250 * (maxWidth / measured_width canvas)\<rfloor>
                               else 250)
               in if scanHeight < 1 then None
                  else
                    (let k = \<lfloor>real_of_int fontSize / 40\<rfloor>;
                         points = scan_rows (image_data canvas fontSize) scanHeight
                                    (real rw) (real rh) k 0
                     in Some (shuffle (length points - 1) points g)))))"

text \<open>
  The text effect, lines 219 to 296: an empty text (or a canvas not mounted yet) clears
  the text points.
\<close>

definition text_effect ::
  "bool \<Rightarrow> Canvas2D \<Rightarrow> VisualizerConfig \<Rightarrow> (real \<times> real) list \<Rightarrow> rng \<Rightarrow>
     ((real \<times> real) list \<times> rng) option" where
  "text_effect mounted canvas config textPoints g =
     (if cfg_text config = [] \<or> \<not> mounted then Some ([], g)
      else processText canvas config textPoints g)"

section \<open>Derived notions\<close>

text \<open>
  The distance of a particle from the centre of the surface, as the constructor computes
  it for \<^verbatim>\<open>radius\<close> (lines 40 to 43).
\<close>

definition center_distance :: "real \<Rightarrow> real \<Rightarrow> Particle \<Rightarrow> real" where
  "center_distance w h p =
     (let dx = px p - w / 2; dy = py p - h / 2 in sqrt (dx * dx + dy * dy))"

text \<open>
  A particle that has no horizontal velocity and lies within the horizontal wrap margins
  of the linear branch.
\<close>

definition matrix_column :: "real \<Rightarrow> Particle \<Rightarrow> bool" where
  "matrix_column w p \<longleftrightarrow> vx p = 0 \<and> - 50 \<le> px p \<and> px p \<le> w + 50"

text \<open>
  The Euclidean distance of the particles at indices \<open>i\<close> and \<open>j\<close>, as the connection
  loop computes \<^verbatim>\<open>distance\<close> (lines 432 to 437).
\<close>

definition pair_distance :: "Particle list \<Rightarrow> nat \<Rightarrow> nat \<Rightarrow> real" where
  "pair_distance ps i j =
     (let dx = px (ps ! i) - px (ps ! j);
          dy = py (ps ! i) - py (ps ! j)
      in sqrt (dx * dx + dy * dy))"

text \<open>
  The edge the connection loop draws for the pair \<open>(i, j)\<close> when \<^verbatim>\<open>distLimit\<close> is
  \<open>limit\<close> (lines 440 to 445).
\<close>

definition edge_of :: "Particle list \<Rightarrow> real \<Rightarrow> nat \<Rightarrow> nat \<Rightarrow> Edge" where
  "edge_of ps limit i j =
     (let opacity = 1 - pair_distance ps i j / limit
      in \<lparr>e_i = i, e_j = j, e_opacity = opacity, e_alpha = opacity * 0.25\<rparr>)"

text \<open>
  A particle placed on a surface of width 0 and height \<open>h\<close>: it lies on the segment
  from \<open>(0, 0)\<close> to \<open>(0, h)\<close>.
\<close>

definition placed_on_zero_width :: "real \<Rightarrow> Particle \<Rightarrow> bool" where
  "placed_on_zero_width h p \<longleftrightarrow> px p = 0 \<and> 0 \<le> py p \<and> py p \<le> h"







section \<open>Fixtures\<close>

text \<open>
  A particle at rest at a given position and depth, with no morph target, for stating
  properties at concrete inputs.
\<close>

definition particle_at :: "real \<Rightarrow> real \<Rightarrow> real \<Rightarrow> Particle" where
  "particle_at x y z =
     \<lparr>px = x, py = y, pz = z, vx = 0, vy = 0, psize = 1, angle = 0, radius = 0,
      targetX = None, targetY = None\<rparr>"

text \<open>A random source whose every draw is one half.\<close>

definition half_rng :: rng where
  "half_rng = (\<lambda>n. 1 / 2)"

text \<open>A random source with the draws 1/2, 1/4, 1/8 and so on.\<close>

definition dyadic_rng :: rng where
  "dyadic_rng = (\<lambda>n. 1 / 2 ^ (n + 1))"




text \<open>
  The configuration the application starts with (\<^verbatim>\<open>useState<VisualizerConfig>\<close> in the
  \<^verbatim>\<open>App\<close> component): full HD, network style, 200 particles, speed 1, connection
  distance 120, no text.
\<close>

definition defaultConfig :: VisualizerConfig where
  "defaultConfig =
     \<lparr>cfg_resolution = \<lparr>res_width = 1920, res_height = 1080\<rparr>,
      cfg_style = Network, cfg_particleCount = 200, cfg_speed = 1,
      cfg_connectionDistance = 120, cfg_text = []\<rparr>"

section \<open>The model at concrete inputs\<close>

text \<open>
  The definitions compute. With every draw equal to one half, the constructor puts a
  matrix particle at the centre of a full HD surface, falling at 4.5 per tick; its first
  update at speed 1 moves it down by that much; a morphing particle moves a twentieth of
  the way to its target and its depth a twentieth of the way to 1.
\<close>

lemma Particle_new_example:
  "fst (Particle_new 1920 1080 Matrix half_rng) =
     \<lparr>px = 960, py = 540, pz = 3 / 2, vx = 0, vy = 9 / 2, psize = 3 / 2,
      angle = 0, radius = 0, targetX = None, targetY = None\<rparr>"
  by (simp add: Particle_new_def resetVelocity_def random_def half_rng_def Let_def atan2_def)

lemma update_linear_example:
  "fst (update 1920 1080 1 (scaleRatio 1920) Matrix
          (fst (Particle_new 1920 1080 Matrix half_rng)) half_rng) =
     \<lparr>px = 960, py = 1089 / 2, pz = 3 / 2, vx = 0, vy = 9 / 2, psize = 3 / 2,
      angle = 0, radius = 0, targetX = None, targetY = None\<rparr>"
  by (simp add: Particle_new_example update_def update_linear_def scaleRatio_def Let_def)

lemma update_morph_example:
  "fst (update 1920 1080 1 (scaleRatio 1920) Network
          ((particle_at 0 0 2)\<lparr>targetX := Some 100, targetY := Some 200\<rparr>) half_rng) =
     (particle_at 5 10 (39 / 20))\<lparr>targetX := Some 100, targetY := Some 200\<rparr>"
  by (simp add: update_def update_morph_def scaleRatio_def random_def half_rng_def
      particle_at_def Let_def)

lemma animate_example:
  "animate defaultConfig [] [particle_at 0 0 1, (particle_at 3 0 2)\<lparr>vx := 1\<rparr>] half_rng =
     ([particle_at 0 0 1, (particle_at 4 0 2)\<lparr>vx := 1\<rparr>], half_rng,
      Some [\<lparr>e_i = 0, e_j = 1, e_opacity = 29 / 30, e_alpha = 29 / 120\<rparr>])"
  by (simp add: animate_def defaultConfig_def scaleRatio_def update_def update_linear_def
      particle_at_def connections_def distLimit_def Let_def upt_rec)

section \<open>Reconciling the particle count\<close>

lemma push_particles_done: "n \<le> i \<Longrightarrow> push_particles i n w h style ps g = (ps, g)"
  by (subst push_particles.simps) simp

lemma push_particles_step:
  "i < n \<Longrightarrow> Particle_new w h style g = (p, g') \<Longrightarrow>
     push_particles i n w h style ps g = push_particles (Suc i) n w h style (ps @ [p]) g'"
  by (subst push_particles.simps) simp

lemma push_particles_append:
  "\<exists>new. fst (push_particles i n w h style ps g) = ps @ new \<and> length new = n - i"
proof (induction i n w h style ps g rule: push_particles.induct)
  case (1 i targetCount w h style ps g)
  show ?case
  proof (cases "i < targetCount")
    case True
    obtain p g' where pg: "Particle_new w h style g = (p, g')"
      by (cases "Particle_new w h style g")
    from "1" [OF True pg [symmetric]] obtain new where
      new: "fst (push_particles (Suc i) targetCount w h style (ps @ [p]) g') = (ps @ [p]) @ new"
        "length new = targetCount - Suc i"
      by blast
    have "fst (push_particles i targetCount w h style ps g) = ps @ (p # new)"
      using new(1) by (simp add: push_particles_step [OF True pg])
    moreover have "length (p # new) = targetCount - i"
      using True new(2) by simp
    ultimately show ?thesis by blast
  next
    case False
    then show ?thesis
      by (simp add: push_particles_done)
  qed
qed

lemma initParticles_grow:
  assumes "length ps < cfg_particleCount config"
  shows "initParticles config w h ps g =
           push_particles (length ps) (cfg_particleCount config) w h (cfg_style config) ps g"
proof -
  let ?r = "push_particles (length ps) (cfg_particleCount config) w h (cfg_style config) ps g"
  obtain new where new: "fst ?r = ps @ new"
      "length new = cfg_particleCount config - length ps"
    using push_particles_append by blast
  then have "length (fst ?r) \<noteq> 0" using assms by simp
  then show ?thesis using assms
    by (simp add: initParticles_def Let_def split_beta)
qed

lemma initParticles_shrink:
  assumes "length ps > cfg_particleCount config"
  shows "initParticles config w h ps g = (take (cfg_particleCount config) ps, g)"
  using assms by (auto simp add: initParticles_def Let_def push_particles_done)

lemma initParticles_same:
  assumes "length ps = cfg_particleCount config"
  shows "initParticles config w h ps g = (ps, g)"
  using assms by (auto simp add: initParticles_def Let_def push_particles_done)

lemma initParticles_length:
  "length (fst (initParticles config w h ps g)) = cfg_particleCount config"
proof -
  let ?N = "cfg_particleCount config"
  consider (grow) "length ps < ?N" | (shrink) "length ps > ?N" | (same) "length ps = ?N"
    by linarith
  then show ?thesis
  proof cases
    case grow
    obtain new where
      "fst (push_particles (length ps) ?N w h (cfg_style config) ps g) = ps @ new"
      "length new = ?N - length ps"
      using push_particles_append by blast
    then show ?thesis using grow by (simp add: initParticles_grow)
  next
    case shrink
    then show ?thesis by (simp add: initParticles_shrink)
  next
    case same
    then show ?thesis by (simp add: initParticles_same)
  qed
qed

text \<open>
  Claim C1. After \<^verbatim>\<open>initParticles\<close> has run with target count \<open>N\<close> (any natural number),
  the collection has exactly \<open>N\<close> particles, whatever its size was before. If it was
  shorter than \<open>N\<close>, the old particles are still its first elements, unchanged, and the
  rest was appended; if it was longer, it is its own first \<open>N\<close> elements; if it had
  \<open>N\<close> elements, it is unchanged.
\<close>

theorem initParticles_reconciles:
  "let N = cfg_particleCount config;
       ps' = fst (initParticles config w h ps g)
   in length ps' = N \<and>
      (length ps < N \<longrightarrow> take (length ps) ps' = ps) \<and>
      (length ps > N \<longrightarrow> ps' = take N ps) \<and>
      (length ps = N \<longrightarrow> ps' = ps)"
proof -
  let ?N = "cfg_particleCount config"
  consider (grow) "length ps < ?N" | (shrink) "length ps > ?N" | (same) "length ps = ?N"
    by linarith
  then show ?thesis
  proof cases
    case grow
    obtain new where new:
      "fst (push_particles (length ps) ?N w h (cfg_style config) ps g) = ps @ new"
      "length new = ?N - length ps"
      using push_particles_append by blast
    then show ?thesis using grow by (simp add: Let_def initParticles_grow)
  next
    case shrink
    then show ?thesis by (simp add: Let_def initParticles_shrink)
  next
    case same
    then show ?thesis by (simp add: Let_def initParticles_same)
  qed
qed

text \<open>
  The three cases at concrete inputs: growth from the empty collection to the 200
  particles of the default configuration, a collection of two cut to one, and a
  collection of two left alone.
\<close>

theorem initParticles_reconciles_witness:
  "length (fst (initParticles defaultConfig 1920 1080 [] (\<lambda>n. 1 / 2))) = 200 \<and>
   (let p = fst (Particle_new 1920 1080 Network (\<lambda>n. 1 / 2));
        q = fst (Particle_new 1920 1080 Network (\<lambda>n. 1 / 4))
    in fst (initParticles (defaultConfig\<lparr>cfg_particleCount := 1\<rparr>) 1920 1080 [p, q]
              (\<lambda>n. 1 / 2)) = [p] \<and>
       fst (initParticles (defaultConfig\<lparr>cfg_particleCount := 2\<rparr>) 1920 1080 [p, q]
              (\<lambda>n. 1 / 2)) = [p, q])"
proof -
  let ?g = "\<lambda>n::nat. 1 / 2 :: real"
  let ?p = "fst (Particle_new 1920 1080 Network ?g)"
  let ?q = "fst (Particle_new 1920 1080 Network (\<lambda>n. 1 / 4))"
  have a: "length (fst (initParticles defaultConfig 1920 1080 [] ?g)) = 200"
    using initParticles_reconciles [of defaultConfig 1920 1080 "[]" ?g]
    by (simp add: Let_def defaultConfig_def)
  have b: "fst (initParticles (defaultConfig\<lparr>cfg_particleCount := 1\<rparr>) 1920 1080 [?p, ?q] ?g)
             = [?p]"
    using initParticles_reconciles
      [of "defaultConfig\<lparr>cfg_particleCount := 1\<rparr>" 1920 1080 "[?p, ?q]" ?g]
    by (simp add: Let_def)
  have c: "fst (initParticles (defaultConfig\<lparr>cfg_particleCount := 2\<rparr>) 1920 1080 [?p, ?q] ?g)
             = [?p, ?q]"
    using initParticles_reconciles
      [of "defaultConfig\<lparr>cfg_particleCount := 2\<rparr>" 1920 1080 "[?p, ?q]" ?g]
    by (simp add: Let_def)
  show ?thesis using a b c by (simp add: Let_def)
qed

section \<open>The random source\<close>

lemma unit_rngD: "unit_rng g \<Longrightarrow> 0 \<le> g n \<and> g n < 1"
  by (simp add: unit_rng_def)

lemma unit_rng_half: "unit_rng (\<lambda>n. 1 / 2)"
  by (simp add: unit_rng_def)


lemma unit_rng_dyadic_rng: "unit_rng dyadic_rng"
proof -
  have "(1::real) < 2 ^ (n + 1)" for n :: nat
    by (rule one_less_power) simp_all
  then show ?thesis
    by (simp add: unit_rng_def dyadic_rng_def)
qed

lemma unit_rng_Particle_new: "unit_rng g \<Longrightarrow> unit_rng (snd (Particle_new w h style g))"
  by (simp add: unit_rng_def random_def Particle_new_def resetVelocity_def Let_def)

lemma unit_rng_update_morph: "unit_rng g \<Longrightarrow> unit_rng (snd (update_morph es sr tx ty p g))"
  by (simp add: unit_rng_def update_morph_def Let_def random_def)

lemma unit_rng_update_nova: "unit_rng g \<Longrightarrow> unit_rng (snd (update_nova w h es p g))"
  by (simp add: unit_rng_def update_nova_def Let_def random_def)

lemma unit_rng_update: "unit_rng g \<Longrightarrow> unit_rng (snd (update w h spd sr style p g))"
  by (simp add: update_def Let_def unit_rng_update_morph unit_rng_update_nova
      split: option.splits)

section \<open>Invariants of the collection\<close>

lemma push_particles_invariant:
  "\<forall>g. unit_rng g \<longrightarrow> P (fst (Particle_new w h style g)) \<Longrightarrow>
     unit_rng g \<Longrightarrow> \<forall>p \<in> set ps. P p \<Longrightarrow>
     (\<forall>p \<in> set (fst (push_particles i n w h style ps g)). P p) \<and>
     unit_rng (snd (push_particles i n w h style ps g))"
proof (induction i n w h style ps g rule: push_particles.induct)
  case (1 i targetCount w h style ps g)
  show ?case
  proof (cases "i < targetCount")
    case True
    obtain p g' where pg: "Particle_new w h style g = (p, g')"
      by (cases "Particle_new w h style g")
    have p: "P p" and g': "unit_rng g'"
      using "1.prems"(1,2) unit_rng_Particle_new [OF "1.prems"(2), of w h style] pg
      by auto
    have "\<forall>q \<in> set (ps @ [p]). P q"
      using "1.prems"(3) p by simp
    from "1.IH" [OF True pg [symmetric] "1.prems"(1) g' this] show ?thesis
      by (simp add: push_particles_step [OF True pg])
  next
    case False
    then show ?thesis using "1.prems"
      by (simp add: push_particles_done)
  qed
qed

lemma initParticles_invariant:
  assumes "\<forall>g. unit_rng g \<longrightarrow> P (fst (Particle_new w h (cfg_style config) g))"
    and "unit_rng g" and "\<forall>p \<in> set ps. P p"
  shows "(\<forall>p \<in> set (fst (initParticles config w h ps g)). P p) \<and>
         unit_rng (snd (initParticles config w h ps g))"
proof -
  let ?N = "cfg_particleCount config"
  consider (grow) "length ps < ?N" | (shrink) "length ps > ?N" | (same) "length ps = ?N"
    by linarith
  then show ?thesis
  proof cases
    case grow
    then show ?thesis
      using push_particles_invariant [OF assms]
      by (simp add: initParticles_grow)
  next
    case shrink
    then show ?thesis using assms(2,3)
      by (auto simp add: initParticles_shrink dest: in_set_takeD)
  next
    case same
    then show ?thesis using assms(2,3) by (simp add: initParticles_same)
  qed
qed

section \<open>Frames without text points\<close>

lemma update_no_target:
  assumes "targetX p = None \<or> targetY p = None" and "style \<noteq> Nova"
  shows "update w h spd sr style p g =
           (if style = Vortex then update_vortex w h (spd * sr) p
            else update_linear w h (spd * sr) style p, g)"
  using assms by (auto simp add: update_def Let_def split: option.splits)

lemma animate_particles_no_text:
  assumes "style \<noteq> Nova"
  shows "animate_particles [] w h spd sr style i k ps g =
           (map (\<lambda>p. fst (update w h spd sr style (p\<lparr>targetX := None, targetY := None\<rparr>) g)) ps, g)"
proof (induction ps arbitrary: i)
  case Nil
  then show ?case by simp
next
  case (Cons p ps)
  show ?case
    by (simp add: Cons.IH update_no_target [OF _ assms] Let_def)
qed

lemma scaleRatio_nonneg: "0 \<le> scaleRatio cw"
  by (simp add: scaleRatio_def)

section \<open>Initial velocity of the network style\<close>

lemma Particle_new_network_velocity:
  "vx (fst (Particle_new w h Network g)) =
     (g (Suc (Suc (Suc (Suc (Suc 0))))) * 0.5 + 0.1)
       * (if g (Suc (Suc (Suc (Suc 0)))) > 0.5 then 1 else - 1)"
  "vy (fst (Particle_new w h Network g)) =
     (g (Suc (Suc (Suc (Suc (Suc (Suc 0)))))) * 0.5 + 0.1)
       * (if g (Suc (Suc (Suc (Suc 0)))) > 0.5 then 1 else - 1)"
  by (simp_all add: Particle_new_def resetVelocity_def random_def Let_def)

text \<open>
  Claim C10. A particle constructed with the network style starts with \<^verbatim>\<open>vx\<close> and
  \<^verbatim>\<open>vy\<close> of the same sign: both lie in \<open>[0.1, 0.6]\<close> or both lie in \<open>[-0.6, -0.1]\<close>,
  because the one direction drawn multiplies both magnitudes. So their product is
  positive: the particle never starts towards the upper right or the lower left.
\<close>

theorem network_velocity_same_sign:
  assumes "unit_rng g"
  shows "let p = fst (Particle_new w h Network g)
         in ((1 / 10 \<le> vx p \<and> vx p \<le> 6 / 10 \<and> 1 / 10 \<le> vy p \<and> vy p \<le> 6 / 10) \<or>
             (- (6 / 10) \<le> vx p \<and> vx p \<le> - (1 / 10) \<and>
              - (6 / 10) \<le> vy p \<and> vy p \<le> - (1 / 10))) \<and>
            0 < vx p * vy p"
proof -
  let ?a = "g (Suc (Suc (Suc (Suc (Suc 0)))))"
  let ?b = "g (Suc (Suc (Suc (Suc (Suc (Suc 0))))))"
  have a: "0 \<le> ?a" "?a < 1" and b: "0 \<le> ?b" "?b < 1"
    using assms by (simp_all add: unit_rngD)
  have pos: "0 < (?a / 2 + 1 / 10) * (?b / 2 + 1 / 10)"
    using a b by (intro mult_pos_pos) simp_all
  have neg: "0 < (- (?a / 2) - 1 / 10) * (- (?b / 2) - 1 / 10)"
    using a b by (intro mult_neg_neg) simp_all
  show ?thesis
    using a b pos neg by (simp add: Particle_new_network_velocity Let_def)
qed

theorem network_velocity_same_sign_witness:
  "unit_rng (\<lambda>n. 1 / 2) \<and>
   (let p = fst (Particle_new 1920 1080 Network (\<lambda>n. 1 / 2))
    in ((1 / 10 \<le> vx p \<and> vx p \<le> 6 / 10 \<and> 1 / 10 \<le> vy p \<and> vy p \<le> 6 / 10) \<or>
        (- (6 / 10) \<le> vx p \<and> vx p \<le> - (1 / 10) \<and>
         - (6 / 10) \<le> vy p \<and> vy p \<le> - (1 / 10))) \<and>
       0 < vx p * vy p)"
  using network_velocity_same_sign [OF unit_rng_half, of 1920 1080] unit_rng_half
  by simp

section \<open>The depth of a particle\<close>

lemma pz_Particle_new:
  "pz (fst (Particle_new w h style g)) =
     (if style = Bokeh then g (Suc (Suc (Suc (Suc (Suc (Suc (Suc (Suc 0)))))))) * 1.5 + 0.5
      else g (Suc (Suc 0)) * 2 + 0.5)"
  by (simp add: random_def Particle_new_def resetVelocity_def Let_def)

lemma Particle_new_depth:
  assumes "unit_rng g"
  shows "1 / 2 \<le> pz (fst (Particle_new w h style g)) \<and>
         pz (fst (Particle_new w h style g)) < (if style = Bokeh then 2 else 5 / 2)"
  using unit_rngD [OF assms, of "Suc (Suc (Suc (Suc (Suc (Suc (Suc (Suc 0)))))))"]
    unit_rngD [OF assms, of "Suc (Suc 0)"]
  by (simp add: pz_Particle_new)

lemma update_morph_depth: "0 < pz p \<Longrightarrow> 0 < pz (fst (update_morph es sr tx ty p g))"
  by (simp add: update_morph_def Let_def random_def diff_divide_distrib)

lemma update_vortex_depth: "pz (update_vortex w h es p) = pz p"
  by (simp add: update_vortex_def Let_def)

lemma update_nova_depth: "pz (fst (update_nova w h es p g)) = pz p"
  by (simp add: update_nova_def Let_def random_def)

lemma update_linear_depth: "pz (update_linear w h es style p) = pz p"
  by (simp add: update_linear_def Let_def)

lemma update_depth: "0 < pz p \<Longrightarrow> 0 < pz (fst (update w h spd sr style p g))"
  by (simp add: update_def Let_def update_morph_depth update_vortex_depth update_nova_depth
      update_linear_depth split: option.splits)

lemma initParticles_depth:
  assumes "unit_rng g" and "\<forall>p \<in> set ps. 0 < pz p"
  shows "(\<forall>p \<in> set (fst (initParticles config w h ps g)). 0 < pz p) \<and>
         unit_rng (snd (initParticles config w h ps g))"
proof (rule initParticles_invariant [OF _ assms])
  show "\<forall>g. unit_rng g \<longrightarrow> 0 < pz (fst (Particle_new w h (cfg_style config) g))"
  proof (intro allI impI)
    fix g' :: rng
    assume "unit_rng g'"
    from Particle_new_depth [OF this, of w h "cfg_style config"]
    show "0 < pz (fst (Particle_new w h (cfg_style config) g'))" by simp
  qed
qed

lemma animate_particles_depth:
  "\<forall>p \<in> set ps. 0 < pz p \<Longrightarrow>
     \<forall>p \<in> set (fst (animate_particles tp w h spd sr style i k ps g)). 0 < pz p"
proof (induction ps arbitrary: i k g)
  case Nil
  then show ?case by simp
next
  case (Cons p ps)
  show ?case using Cons.prems Cons.IH
    by (auto simp add: Let_def split_beta update_depth)
qed

lemma animate_particles_length:
  "length (fst (animate_particles tp w h spd sr style i k ps g)) = length ps"
  by (induction ps arbitrary: i k g) (simp_all add: Let_def split_beta)

lemma frames_depth:
  "\<forall>p \<in> set ps. 0 < pz p \<Longrightarrow> \<forall>p \<in> set (fst (frames n config tp ps g)). 0 < pz p"
proof (induction n arbitrary: ps g)
  case 0
  then show ?case by simp
next
  case (Suc n)
  show ?case using Suc.IH [OF animate_particles_depth [OF Suc.prems]]
    by (simp add: animate_def Let_def split_beta)
qed

lemma render_effect_depth:
  assumes "unit_rng g" and "\<forall>p \<in> set ps. 0 < pz p"
  shows "\<forall>p \<in> set (fst (render_effect n config tp ps g)). 0 < pz p"
proof -
  let ?w = "real (res_width (cfg_resolution config))"
  let ?h = "real (res_height (cfg_resolution config))"
  let ?init = "initParticles config ?w ?h ps g"
  have "\<forall>p \<in> set (fst ?init). 0 < pz p"
    using initParticles_depth [OF assms] by blast
  then have "\<forall>p \<in> set (fst (frames n config tp (fst ?init) (snd ?init))). 0 < pz p"
    by (rule frames_depth)
  then show ?thesis
    by (simp add: render_effect_def Let_def split_beta)
qed

text \<open>
  Claim C2. The depth \<^verbatim>\<open>z\<close> of a particle is positive when the constructor returns,
  and it lies in \<open>[0.5, 2.0]\<close> for the bokeh style and in \<open>[0.5, 2.5]\<close> for every other
  style; one call of \<^verbatim>\<open>update\<close> keeps a positive depth positive, for every style and
  for the morph override (any targets, any arguments); hence, when the render effect
  starts on a collection of particles of positive depth (the empty one, for instance),
  every particle of the collection has a positive depth after any number of frames,
  whatever the text points are.
\<close>

theorem depth_invariant:
  "(unit_rng g \<longrightarrow>
      (let p = fst (Particle_new w h style g)
       in 0 < pz p \<and> 1 / 2 \<le> pz p \<and> (if style = Bokeh then pz p \<le> 2 else pz p \<le> 5 / 2))) \<and>
   (0 < pz q \<longrightarrow> 0 < pz (fst (update w h spd sr style q g))) \<and>
   (unit_rng g \<and> (\<forall>p \<in> set ps. 0 < pz p) \<longrightarrow>
      (\<forall>p \<in> set (fst (render_effect n config textPoints ps g)). 0 < pz p))"
proof (intro conjI impI)
  assume g: "unit_rng g"
  show "let p = fst (Particle_new w h style g)
        in 0 < pz p \<and> 1 / 2 \<le> pz p \<and> (if style = Bokeh then pz p \<le> 2 else pz p \<le> 5 / 2)"
    using Particle_new_depth [OF g, of w h style]
    by (simp add: Let_def split: if_splits)
next
  assume "0 < pz q"
  then show "0 < pz (fst (update w h spd sr style q g))"
    by (rule update_depth)
next
  assume "unit_rng g \<and> (\<forall>p \<in> set ps. 0 < pz p)"
  then show "\<forall>p \<in> set (fst (render_effect n config textPoints ps g)). 0 < pz p"
    using render_effect_depth by blast
qed

text \<open>
  At a concrete input: bokeh particles, every draw equal to one half, a morphing
  particle of depth 2 in a collection of one, three frames towards one text point.
\<close>

theorem depth_invariant_witness:
  "unit_rng (\<lambda>n. 1 / 2) \<and>
   (let q = (particle_at 0 0 2)\<lparr>targetX := Some 5, targetY := Some 7\<rparr>;
        config = defaultConfig\<lparr>cfg_style := Bokeh, cfg_text := ''A''\<rparr>
    in 0 < pz q \<and>
       (let p = fst (Particle_new 1920 1080 Bokeh (\<lambda>n. 1 / 2))
        in 0 < pz p \<and> 1 / 2 \<le> pz p \<and> pz p \<le> 2) \<and>
       0 < pz (fst (update 1920 1080 1 1 Bokeh q (\<lambda>n. 1 / 2))) \<and>
       (\<forall>p \<in> set (fst (render_effect 3 config [(100, 200)] [q] (\<lambda>n. 1 / 2))). 0 < pz p))"
proof -
  let ?q = "(particle_at 0 0 2)\<lparr>targetX := Some 5, targetY := Some 7\<rparr>"
  have q: "0 < pz ?q" by (simp add: particle_at_def)
  have qs: "\<forall>p \<in> set [?q]. 0 < pz p" using q by simp
  show ?thesis
    using depth_invariant [of "\<lambda>n. 1 / 2" 1920 1080 Bokeh ?q 1 1 "[?q]" 3
        "defaultConfig\<lparr>cfg_style := Bokeh, cfg_text := ''A''\<rparr>" "[(100, 200)]"]
      unit_rng_half q qs
    by (simp add: Let_def)
qed

section \<open>The vortex style\<close>

lemma update_vortex_fields:
  "radius (update_vortex w h es p) = radius p"
  "angle (update_vortex w h es p) = angle p + (0.005 * es) / pz p"
  "pz (update_vortex w h es p) = pz p"
  "targetX (update_vortex w h es p) = targetX p"
  "targetY (update_vortex w h es p) = targetY p"
  "px (update_vortex w h es p) = w / 2 + cos (angle (update_vortex w h es p)) * radius p"
  "py (update_vortex w h es p) = h / 2 + sin (angle (update_vortex w h es p)) * radius p"
  by (simp_all add: update_vortex_def Let_def)

lemma vortex_clear_funpow:
  assumes "0 \<le> es" "0 < pz p"
  shows "let p' = ((\<lambda>p. update_vortex w h es (p\<lparr>targetX := None, targetY := None\<rparr>)) ^^ n) p
         in radius p' = radius p \<and> angle p \<le> angle p' \<and> pz p' = pz p \<and>
            (0 < n \<longrightarrow> px p' = w / 2 + cos (angle p') * radius p \<and>
                       py p' = h / 2 + sin (angle p') * radius p)"
proof (induction n)
  case 0
  then show ?case by simp
next
  case (Suc n)
  let ?f = "\<lambda>p. update_vortex w h es (p\<lparr>targetX := None, targetY := None\<rparr>)"
  let ?q = "(?f ^^ n) p"
  have q: "radius ?q = radius p" "angle p \<le> angle ?q" "pz ?q = pz p"
    using Suc.IH by (simp_all add: Let_def)
  have "0 \<le> 0.005 * es / pz p" using assms by simp
  then have "angle p \<le> angle ?q + 0.005 * es / pz p" using q(2) by simp
  then show ?case using q
    by (simp only: Let_def funpow.simps o_apply update_vortex_fields) simp
qed

lemma frames_vortex_no_text:
  assumes "cfg_style config = Vortex"
  shows "frames n config [] ps g =
           (map ((\<lambda>p. update_vortex (real (res_width (cfg_resolution config)))
                         (real (res_height (cfg_resolution config)))
                         (cfg_speed config * scaleRatio (res_width (cfg_resolution config)))
                         (p\<lparr>targetX := None, targetY := None\<rparr>)) ^^ n) ps, g)"
proof (induction n arbitrary: ps)
  case 0
  then show ?case by simp
next
  case (Suc n)
  show ?case
    by (simp add: animate_def Let_def assms animate_particles_no_text update_no_target
        Suc.IH funpow_Suc_right del: funpow.simps)
qed

lemma Particle_new_radius:
  "radius (fst (Particle_new w h style g)) = center_distance w h (fst (Particle_new w h style g))"
  by (simp add: Particle_new_def resetVelocity_def random_def Let_def center_distance_def)

lemma center_distance_mid_height:
  assumes "py p = h / 2"
  shows "center_distance w h p = \<bar>px p - w / 2\<bar>"
  unfolding center_distance_def Let_def assms by simp

text \<open>
  Claim C5, as the code has it. One update of a particle without a morph target in the
  vortex style leaves its \<^verbatim>\<open>radius\<close> unchanged, does not decrease its \<^verbatim>\<open>angle\<close> (for
  a positive speed multiplier and a positive depth) and sets its position to the centre
  of the surface plus \<^verbatim>\<open>radius\<close> times \<open>(cos angle, sin angle)\<close> for the new angle,
  whatever the position was before. Over any number of frames without text points the
  same holds for every particle of the collection: the radius is the one it started
  with, the angle is not below the one it started with, and after each frame the
  position is given by that formula. The constructor sets \<^verbatim>\<open>radius\<close> to the distance of
  the initial position from the centre.
\<close>

theorem vortex_invariant:
  "((targetX p = None \<or> targetY p = None) \<and> 0 < spd \<and> 0 < pz p \<longrightarrow>
      (let p' = fst (update w h spd (scaleRatio cw) Vortex p g)
       in radius p' = radius p \<and> angle p \<le> angle p' \<and>
          px p' = w / 2 + cos (angle p') * radius p \<and>
          py p' = h / 2 + sin (angle p') * radius p)) \<and>
   (cfg_style config = Vortex \<and> 0 < cfg_speed config \<and> (\<forall>q \<in> set ps. 0 < pz q) \<longrightarrow>
      (let ps' = fst (frames n config [] ps g)
       in length ps' = length ps \<and>
          (\<forall>i < length ps.
             radius (ps' ! i) = radius (ps ! i) \<and> angle (ps ! i) \<le> angle (ps' ! i) \<and>
             (0 < n \<longrightarrow>
                px (ps' ! i) = real (res_width (cfg_resolution config)) / 2
                                 + cos (angle (ps' ! i)) * radius (ps ! i) \<and>
                py (ps' ! i) = real (res_height (cfg_resolution config)) / 2
                                 + sin (angle (ps' ! i)) * radius (ps ! i))))) \<and>
   (let p0 = fst (Particle_new w h style g)
    in radius p0 = center_distance w h p0 \<and> 0 \<le> radius p0)"
proof (intro conjI impI)
  assume a: "(targetX p = None \<or> targetY p = None) \<and> 0 < spd \<and> 0 < pz p"
  then have "0 \<le> 0.005 * (spd * scaleRatio cw) / pz p"
    using scaleRatio_nonneg [of cw] by simp
  then show "let p' = fst (update w h spd (scaleRatio cw) Vortex p g)
       in radius p' = radius p \<and> angle p \<le> angle p' \<and>
          px p' = w / 2 + cos (angle p') * radius p \<and>
          py p' = h / 2 + sin (angle p') * radius p"
    using a by (simp add: update_no_target update_vortex_fields Let_def)
next
  let ?w = "real (res_width (cfg_resolution config))"
  let ?h = "real (res_height (cfg_resolution config))"
  let ?es = "cfg_speed config * scaleRatio (res_width (cfg_resolution config))"
  let ?f = "\<lambda>p. update_vortex ?w ?h ?es (p\<lparr>targetX := None, targetY := None\<rparr>)"
  assume a: "cfg_style config = Vortex \<and> 0 < cfg_speed config \<and> (\<forall>q \<in> set ps. 0 < pz q)"
  then have es: "0 \<le> ?es"
    using scaleRatio_nonneg [of "res_width (cfg_resolution config)"] by simp
  have fr: "fst (frames n config [] ps g) = map (?f ^^ n) ps"
    using a by (simp add: frames_vortex_no_text)
  have "\<forall>i < length ps.
          radius ((?f ^^ n) (ps ! i)) = radius (ps ! i) \<and>
          angle (ps ! i) \<le> angle ((?f ^^ n) (ps ! i)) \<and>
          (0 < n \<longrightarrow>
             px ((?f ^^ n) (ps ! i)) = ?w / 2 + cos (angle ((?f ^^ n) (ps ! i))) * radius (ps ! i) \<and>
             py ((?f ^^ n) (ps ! i)) = ?h / 2 + sin (angle ((?f ^^ n) (ps ! i))) * radius (ps ! i))"
  proof (intro allI impI)
    fix i assume "i < length ps"
    then have "0 < pz (ps ! i)" using a by simp
    from vortex_clear_funpow [OF es this, where w = ?w and h = ?h and n = n]
    show "radius ((?f ^^ n) (ps ! i)) = radius (ps ! i) \<and>
          angle (ps ! i) \<le> angle ((?f ^^ n) (ps ! i)) \<and>
          (0 < n \<longrightarrow>
             px ((?f ^^ n) (ps ! i)) = ?w / 2 + cos (angle ((?f ^^ n) (ps ! i))) * radius (ps ! i) \<and>
             py ((?f ^^ n) (ps ! i)) = ?h / 2 + sin (angle ((?f ^^ n) (ps ! i))) * radius (ps ! i))"
      by (simp add: Let_def)
  qed
  then show "let ps' = fst (frames n config [] ps g)
       in length ps' = length ps \<and>
          (\<forall>i < length ps.
             radius (ps' ! i) = radius (ps ! i) \<and> angle (ps ! i) \<le> angle (ps' ! i) \<and>
             (0 < n \<longrightarrow>
                px (ps' ! i) = ?w / 2 + cos (angle (ps' ! i)) * radius (ps ! i) \<and>
                py (ps' ! i) = ?h / 2 + sin (angle (ps' ! i)) * radius (ps ! i)))"
    by (simp add: fr Let_def)
next
  show "let p0 = fst (Particle_new w h style g)
    in radius p0 = center_distance w h p0 \<and> 0 \<le> radius p0"
    by (simp add: Let_def Particle_new_radius center_distance_def)
qed

text \<open>
  At a concrete input: a particle of radius 50 that lies 100 to the right of the centre
  of a full HD surface, with the angle \<open>-0.005\<close> that one update at speed 1 and depth 1
  brings to 0.
\<close>

theorem vortex_invariant_witness:
  "(let p = (particle_at 1060 540 1)\<lparr>radius := 50, angle := - (1 / 200)\<rparr>;
        config = defaultConfig\<lparr>cfg_style := Vortex\<rparr>;
        p' = fst (update 1920 1080 1 (scaleRatio 1920) Vortex p half_rng);
        ps' = fst (frames 2 config [] [p] half_rng)
    in targetX p = None \<and> 0 < pz p \<and> cfg_style config = Vortex \<and> 0 < cfg_speed config \<and>
       radius p' = 50 \<and> angle p' = 0 \<and> px p' = 1010 \<and> py p' = 540 \<and>
       length ps' = 1 \<and> radius (ps' ! 0) = 50 \<and> - (1 / 200) \<le> angle (ps' ! 0) \<and>
       px (ps' ! 0) = 960 + cos (angle (ps' ! 0)) * 50 \<and>
       py (ps' ! 0) = 540 + sin (angle (ps' ! 0)) * 50)"
proof -
  let ?p = "(particle_at 1060 540 1)\<lparr>radius := 50, angle := - (1 / 200)\<rparr>"
  let ?c = "defaultConfig\<lparr>cfg_style := Vortex\<rparr>"
  let ?p' = "fst (update 1920 1080 1 (scaleRatio 1920) Vortex ?p half_rng)"
  have p: "targetX ?p = None" "0 < pz ?p" "radius ?p = 50" "angle ?p = - (1 / 200)"
    by (simp_all add: particle_at_def)
  have c: "cfg_style ?c = Vortex" "0 < cfg_speed ?c"
    "res_width (cfg_resolution ?c) = 1920" "res_height (cfg_resolution ?c) = 1080"
    by (simp_all add: defaultConfig_def)
  have a: "angle ?p' = 0"
    by (simp add: update_no_target update_vortex_fields particle_at_def scaleRatio_def)
  show ?thesis
    using vortex_invariant [of ?p 1 1920 1080 1920 half_rng ?c "[?p]" 2 Vortex] p c a
    by (simp add: Let_def)
qed

text \<open>
  The claim as the specification words it (the distance from the centre of the surface
  is unchanged by the update) fails for a particle that is not on the circle of its
  \<^verbatim>\<open>radius\<close>, as a particle is that a morph has moved or that was kept from another
  style: the particle of the witness is 100 from the centre before its update and 50
  after it.
\<close>

theorem vortex_invariant_counterexample:
  "targetX ((particle_at 1060 540 1)\<lparr>radius := 50, angle := - (1 / 200)\<rparr>) = None \<and>
   center_distance 1920 1080 ((particle_at 1060 540 1)\<lparr>radius := 50, angle := - (1 / 200)\<rparr>)
     = 100 \<and>
   center_distance 1920 1080
     (fst (update 1920 1080 1 (scaleRatio 1920) Vortex
            ((particle_at 1060 540 1)\<lparr>radius := 50, angle := - (1 / 200)\<rparr>) half_rng))
     = 50"
proof -
  let ?p = "(particle_at 1060 540 1)\<lparr>radius := 50, angle := - (1 / 200)\<rparr>"
  let ?p' = "fst (update 1920 1080 1 (scaleRatio 1920) Vortex ?p half_rng)"
  have p: "targetX ?p = None" "px ?p = 1060" "py ?p = 1080 / 2"
    by (simp_all add: particle_at_def)
  have p': "px ?p' = 1010" "py ?p' = 1080 / 2"
    by (simp_all add: update_no_target update_vortex_def Let_def particle_at_def scaleRatio_def)
  show ?thesis
    using p p' center_distance_mid_height [of ?p 1080 1920]
      center_distance_mid_height [of ?p' 1080 1920]
    by simp
qed

section \<open>The matrix style\<close>

lemma Particle_new_matrix:
  assumes "unit_rng g" "0 \<le> w"
  shows "matrix_column w (fst (Particle_new w h Matrix g))"
proof -
  have "px (fst (Particle_new w h Matrix g)) = g 0 * w" "vx (fst (Particle_new w h Matrix g)) = 0"
    by (simp_all add: Particle_new_def resetVelocity_def random_def Let_def)
  moreover have "0 \<le> g 0 * w" "g 0 * w \<le> w"
    using unit_rngD [OF assms(1), of 0] assms(2) mult_right_mono [of "g 0" 1 w]
    by simp_all
  ultimately show ?thesis by (simp add: matrix_column_def)
qed

lemma update_linear_matrix:
  assumes "matrix_column w p"
  shows "px (update_linear w h es Matrix (p\<lparr>targetX := None, targetY := None\<rparr>)) = px p"
    and "matrix_column w (update_linear w h es Matrix (p\<lparr>targetX := None, targetY := None\<rparr>))"
  using assms by (simp_all add: matrix_column_def update_linear_def Let_def)

lemma matrix_funpow:
  assumes "matrix_column w p"
  shows "px (((\<lambda>p. update_linear w h es Matrix (p\<lparr>targetX := None, targetY := None\<rparr>)) ^^ n) p) = px p
       \<and> matrix_column w (((\<lambda>p. update_linear w h es Matrix (p\<lparr>targetX := None, targetY := None\<rparr>)) ^^ n) p)"
proof (induction n)
  case 0
  then show ?case using assms by simp
next
  case (Suc n)
  then show ?case by (simp add: update_linear_matrix)
qed

lemma frames_linear_no_text:
  assumes "cfg_style config \<noteq> Nova" "cfg_style config \<noteq> Vortex"
  shows "frames n config [] ps g =
           (map ((\<lambda>p. update_linear (real (res_width (cfg_resolution config)))
                         (real (res_height (cfg_resolution config)))
                         (cfg_speed config * scaleRatio (res_width (cfg_resolution config)))
                         (cfg_style config)
                         (p\<lparr>targetX := None, targetY := None\<rparr>)) ^^ n) ps, g)"
proof (induction n arbitrary: ps)
  case 0
  then show ?case by simp
next
  case (Suc n)
  show ?case
    by (simp add: animate_def Let_def assms animate_particles_no_text update_no_target
        Suc.IH funpow_Suc_right del: funpow.simps)
qed

lemma matrix_wrap:
  assumes "targetX p = None \<or> targetY p = None" "py p + vy p * (spd * sr) > h + 50"
  shows "py (fst (update w h spd sr Matrix p g)) = - 50"
  using assms by (simp add: update_no_target update_linear_def Let_def)

text \<open>
  Claim C6. Style matrix, 50 particles, speed 1, resolution 1920 by 1080, no text: the
  50 particles the first \<^verbatim>\<open>initParticles\<close> builds have \<^verbatim>\<open>vx = 0\<close>, and after any
  number of frames every particle has the \<^verbatim>\<open>x\<close> it was constructed with. In one update
  of a particle without a morph target, if the translated \<^verbatim>\<open>y\<close> exceeds
  \<open>height + 50\<close> the update leaves \<^verbatim>\<open>y = -50\<close>.
\<close>

theorem matrix_end_to_end:
  "(unit_rng g \<longrightarrow>
      (let config = defaultConfig\<lparr>cfg_style := Matrix, cfg_particleCount := 50\<rparr>;
           ps0 = fst (initParticles config 1920 1080 [] g);
           ps = fst (render_effect n config [] [] g)
       in length ps0 = 50 \<and> (\<forall>p \<in> set ps0. vx p = 0) \<and>
          length ps = 50 \<and> map px ps = map px ps0)) \<and>
   ((targetX p = None \<or> targetY p = None) \<and>
    py p + vy p * (1 * scaleRatio 1920) > 1080 + 50 \<longrightarrow>
      py (fst (update 1920 1080 1 (scaleRatio 1920) Matrix p g)) = - 50)"
proof (intro conjI impI)
  let ?c = "defaultConfig\<lparr>cfg_style := Matrix, cfg_particleCount := 50\<rparr>"
  let ?ps0 = "fst (initParticles ?c 1920 1080 [] g)"
  let ?g0 = "snd (initParticles ?c 1920 1080 [] g)"
  let ?f = "\<lambda>p. update_linear 1920 1080 (1 * scaleRatio 1920) Matrix
                  (p\<lparr>targetX := None, targetY := None\<rparr>)"
  assume g: "unit_rng g"
  have c: "cfg_style ?c = Matrix" "cfg_particleCount ?c = 50" "cfg_speed ?c = 1"
    "res_width (cfg_resolution ?c) = 1920" "res_height (cfg_resolution ?c) = 1080"
    by (simp_all add: defaultConfig_def)
  have len0: "length ?ps0 = 50"
    by (simp add: initParticles_length c)
  have col: "\<forall>p \<in> set ?ps0. matrix_column 1920 p"
  proof -
    have "\<forall>g. unit_rng g \<longrightarrow> matrix_column 1920 (fst (Particle_new 1920 1080 (cfg_style ?c) g))"
      by (simp add: c Particle_new_matrix)
    from initParticles_invariant [OF this g, of "[]"] show ?thesis by simp
  qed
  have run: "fst (render_effect n ?c [] [] g) = map (?f ^^ n) ?ps0"
    by (simp add: render_effect_def Let_def split_beta c frames_linear_no_text defaultConfig_def)
  have "map px (map (?f ^^ n) ?ps0) = map px ?ps0"
    using col matrix_funpow [where w = 1920 and h = 1080 and es = "1 * scaleRatio 1920" and n = n]
    by simp
  then show "let config = defaultConfig\<lparr>cfg_style := Matrix, cfg_particleCount := 50\<rparr>;
           ps0 = fst (initParticles config 1920 1080 [] g);
           ps = fst (render_effect n config [] [] g)
       in length ps0 = 50 \<and> (\<forall>p \<in> set ps0. vx p = 0) \<and>
          length ps = 50 \<and> map px ps = map px ps0"
    using len0 col by (simp add: Let_def run matrix_column_def)
next
  assume "(targetX p = None \<or> targetY p = None) \<and>
    py p + vy p * (1 * scaleRatio 1920) > 1080 + 50"
  then show "py (fst (update 1920 1080 1 (scaleRatio 1920) Matrix p g)) = - 50"
    using matrix_wrap [where p = p and spd = 1 and sr = "scaleRatio 1920" and h = 1080
        and w = 1920 and g = g]
    by simp
qed

theorem matrix_end_to_end_witness:
  "unit_rng (\<lambda>n. 1 / 2) \<and>
   (let config = defaultConfig\<lparr>cfg_style := Matrix, cfg_particleCount := 50\<rparr>;
        ps0 = fst (initParticles config 1920 1080 [] (\<lambda>n. 1 / 2));
        ps = fst (render_effect 7 config [] [] (\<lambda>n. 1 / 2));
        p = (particle_at 10 1129 1)\<lparr>vy := 2\<rparr>
    in length ps0 = 50 \<and> (\<forall>p \<in> set ps0. vx p = 0) \<and>
       length ps = 50 \<and> map px ps = map px ps0 \<and>
       targetX p = None \<and> py p + vy p * (1 * scaleRatio 1920) > 1080 + 50 \<and>
       py (fst (update 1920 1080 1 (scaleRatio 1920) Matrix p (\<lambda>n. 1 / 2))) = - 50)"
proof -
  let ?p = "(particle_at 10 1129 1)\<lparr>vy := 2\<rparr>"
  have p: "targetX ?p = None" "py ?p + vy ?p * (1 * scaleRatio 1920) > 1080 + 50"
    by (simp_all add: particle_at_def scaleRatio_def)
  show ?thesis
    using matrix_end_to_end [of "\<lambda>n. 1 / 2" 7 ?p] unit_rng_half p
    by (simp add: Let_def)
qed

section \<open>Empty text\<close>

lemma update_morph_targets:
  "targetX (fst (update_morph es sr tx ty p g)) = targetX p"
  "targetY (fst (update_morph es sr tx ty p g)) = targetY p"
  by (simp_all add: update_morph_def Let_def random_def)

lemma update_vortex_targets:
  "targetX (update_vortex w h es p) = targetX p"
  "targetY (update_vortex w h es p) = targetY p"
  by (simp_all add: update_vortex_def Let_def)

lemma update_nova_targets:
  "targetX (fst (update_nova w h es p g)) = targetX p"
  "targetY (fst (update_nova w h es p g)) = targetY p"
  by (simp_all add: update_nova_def Let_def random_def)

lemma update_linear_targets:
  "targetX (update_linear w h es style p) = targetX p"
  "targetY (update_linear w h es style p) = targetY p"
  by (simp_all add: update_linear_def Let_def)

lemma update_targets:
  "targetX (fst (update w h spd sr style p g)) = targetX p"
  "targetY (fst (update w h spd sr style p g)) = targetY p"
  by (simp_all add: update_def Let_def update_morph_targets update_vortex_targets
      update_nova_targets update_linear_targets split: option.splits)

lemma animate_particles_no_text_targets:
  "\<forall>p \<in> set (fst (animate_particles [] w h spd sr style i k ps g)).
     targetX p = None \<and> targetY p = None"
proof (induction ps arbitrary: i g)
  case Nil
  then show ?case by simp
next
  case (Cons p ps)
  show ?case using Cons.IH
    by (simp add: Let_def split_beta update_targets)
qed

lemma animate_no_text_length: "length (fst (animate config [] ps g)) = length ps"
  by (simp add: animate_def Let_def split_beta animate_particles_length)

lemma animate_no_text_targets:
  "\<forall>p \<in> set (fst (animate config [] ps g)). targetX p = None \<and> targetY p = None"
  using animate_particles_no_text_targets
  by (simp add: animate_def Let_def split_beta)

lemma animate_drawn:
  "snd (snd (animate config tp ps g)) \<noteq> None \<longleftrightarrow>
     cfg_style config = Network \<or> cfg_text config \<noteq> []"
  by (simp add: animate_def Let_def split_beta)

lemma frames_no_text_targets:
  "\<forall>p \<in> set ps. targetX p = None \<and> targetY p = None \<Longrightarrow>
     \<forall>p \<in> set (fst (frames n config [] ps g)). targetX p = None \<and> targetY p = None"
proof (induction n arbitrary: ps g)
  case 0
  then show ?case by simp
next
  case (Suc n)
  have "\<forall>p \<in> set (fst (animate config [] ps g)). targetX p = None \<and> targetY p = None"
    by (rule animate_no_text_targets)
  from Suc.IH [OF this] show ?case
    by (simp add: split_beta)
qed

text \<open>
  Claim C7. With the empty string as text, the text effect leaves the empty list of text
  points. With no text points, one call of \<^verbatim>\<open>animate\<close> leaves every particle with
  \<^verbatim>\<open>targetX\<close> and \<^verbatim>\<open>targetY\<close> null, and so does any positive number of frames; and
  the connection loop runs in that call exactly when the style is network.
\<close>

theorem empty_text_no_morph:
  "cfg_text config = [] \<longrightarrow>
     text_effect mounted canvas config textPoints g = Some ([], g) \<and>
     (case animate config [] ps g of
        (ps', g', drawn) \<Rightarrow>
          length ps' = length ps \<and>
          (\<forall>p \<in> set ps'. targetX p = None \<and> targetY p = None) \<and>
          (drawn \<noteq> None \<longleftrightarrow> cfg_style config = Network)) \<and>
     (0 < n \<longrightarrow>
        (\<forall>p \<in> set (fst (frames n config [] ps g)). targetX p = None \<and> targetY p = None))"
proof (intro impI conjI)
  assume t: "cfg_text config = []"
  show "text_effect mounted canvas config textPoints g = Some ([], g)"
    using t by (simp add: text_effect_def)
  show "case animate config [] ps g of
        (ps', g', drawn) \<Rightarrow>
          length ps' = length ps \<and>
          (\<forall>p \<in> set ps'. targetX p = None \<and> targetY p = None) \<and>
          (drawn \<noteq> None \<longleftrightarrow> cfg_style config = Network)"
    using animate_no_text_length [of config ps g] animate_no_text_targets [of config ps g]
      animate_drawn [of config "[]" ps g] t
    by (simp add: split_beta)
  assume "0 < n"
  then obtain m where n: "n = Suc m" by (cases n) simp_all
  have "\<forall>p \<in> set (fst (animate config [] ps g)). targetX p = None \<and> targetY p = None"
    by (rule animate_no_text_targets)
  from frames_no_text_targets [OF this, of m config "fst (snd (animate config [] ps g))"]
  show "\<forall>p \<in> set (fst (frames n config [] ps g)). targetX p = None \<and> targetY p = None"
    by (simp add: n split_beta)
qed

theorem empty_text_no_morph_witness:
  "cfg_text defaultConfig = [] \<and>
   (let q = (particle_at 3 4 1)\<lparr>targetX := Some 5, targetY := Some 7\<rparr>;
        canvas = \<lparr>ctx_ok = True, measured_width = 0, image_data = (\<lambda>fs i. None)\<rparr>
    in text_effect True canvas defaultConfig [(1, 2)] (\<lambda>n. 1 / 2) = Some ([], \<lambda>n. 1 / 2) \<and>
       (\<forall>p \<in> set (fst (frames 3 defaultConfig [] [q, q] (\<lambda>n. 1 / 2))).
          targetX p = None \<and> targetY p = None) \<and>
       snd (snd (animate defaultConfig [] [q, q] (\<lambda>n. 1 / 2))) \<noteq> None \<and>
       snd (snd (animate (defaultConfig\<lparr>cfg_style := Nova\<rparr>) [] [q, q] (\<lambda>n. 1 / 2))) = None)"
proof -
  let ?q = "(particle_at 3 4 1)\<lparr>targetX := Some 5, targetY := Some 7\<rparr>"
  let ?canvas = "\<lparr>ctx_ok = True, measured_width = 0, image_data = (\<lambda>fs i. None)\<rparr>"
  let ?g = "\<lambda>n::nat. 1 / 2 :: real"
  have t: "cfg_text defaultConfig = []" "cfg_style defaultConfig = Network"
    "cfg_text (defaultConfig\<lparr>cfg_style := Nova\<rparr>) = []"
    by (simp_all add: defaultConfig_def)
  show ?thesis
    using empty_text_no_morph [of defaultConfig True ?canvas "[(1, 2)]" ?g "[?q, ?q]" 3]
      empty_text_no_morph [of "defaultConfig\<lparr>cfg_style := Nova\<rparr>" True ?canvas "[(1, 2)]" ?g
        "[?q, ?q]" 3] t
    by (simp add: Let_def split_beta)
qed

section \<open>The connection graph\<close>

lemma abs_le_sqrt_sum1: "\<bar>x\<bar> \<le> sqrt (x * x + y * y)"
proof -
  have "sqrt (x * x) \<le> sqrt (x * x + y * y)"
    by (simp only: real_sqrt_le_iff) simp
  then show ?thesis by simp
qed

lemma abs_le_sqrt_sum2: "\<bar>y\<bar> \<le> sqrt (x * x + y * y)"
  using abs_le_sqrt_sum1 [of y x] by (simp add: add.commute)

lemma connect_inner_step:
  "connect_inner ps l i (j # js) =
     (if pair_distance ps i j < l then [edge_of ps l i j] else []) @ connect_inner ps l i js"
proof -
  let ?dx = "px (ps ! i) - px (ps ! j)"
  let ?dy = "py (ps ! i) - py (ps ! j)"
  have "\<bar>?dx\<bar> > l \<or> \<bar>?dy\<bar> > l \<Longrightarrow> \<not> pair_distance ps i j < l"
    using abs_le_sqrt_sum1 [of ?dx ?dy] abs_le_sqrt_sum2 [of ?dy ?dx]
    by (auto simp add: pair_distance_def Let_def)
  then show ?thesis
    by (auto simp add: pair_distance_def edge_of_def Let_def)
qed

lemma connect_inner_mem:
  "e \<in> set (connect_inner ps l i js) \<longleftrightarrow>
     (\<exists>j \<in> set js. pair_distance ps i j < l \<and> e = edge_of ps l i j)"
proof (induction js)
  case Nil
  then show ?case by simp
next
  case (Cons j js)
  then show ?case
    by (auto simp add: connect_inner_step simp del: connect_inner.simps)
qed

lemma connect_outer_mem:
  "e \<in> set (connect_outer ps l is) \<longleftrightarrow>
     (\<exists>i \<in> set is. \<exists>j. pz (ps ! i) \<le> 1.8 \<and> i < j \<and> j < length ps \<and>
        pair_distance ps i j < l \<and> e = edge_of ps l i j)"
proof (induction "is")
  case Nil
  then show ?case by simp
next
  case (Cons i "is")
  have inner: "e \<in> set (connect_inner ps l i [Suc i ..< length ps]) \<longleftrightarrow>
      (\<exists>j. i < j \<and> j < length ps \<and> pair_distance ps i j < l \<and> e = edge_of ps l i j)"
    by (auto simp add: connect_inner_mem Suc_le_eq)
  show ?case
  proof (cases "pz (ps ! i) > 1.8")
    case True
    then show ?thesis using Cons.IH by auto
  next
    case False
    then have le: "pz (ps ! i) \<le> 1.8" by simp
    show ?thesis using False le Cons.IH inner by auto
  qed
qed

lemma connections_mem:
  "e \<in> set (connections ps l) \<longleftrightarrow>
     (\<exists>i j. i < j \<and> j < length ps \<and> pz (ps ! i) \<le> 1.8 \<and>
        pair_distance ps i j < l \<and> e = edge_of ps l i j)"
  by (auto simp add: connections_def connect_outer_mem)

lemma pair_distance_same_row:
  "py (ps ! i) = py (ps ! j) \<Longrightarrow> pair_distance ps i j = \<bar>px (ps ! i) - px (ps ! j)\<bar>"
  by (simp add: pair_distance_def)

lemma distLimit_eq:
  "distLimit config cw =
     cfg_connectionDistance config * scaleRatio cw * (if cfg_text config \<noteq> [] then 0.6 else 1)"
  by (simp add: distLimit_def Let_def)

text \<open>
  Claim C3. Among the pairs \<open>i < j\<close> of the collection, the connection loop draws an
  edge for exactly those whose lower-indexed particle has \<open>z \<le> 1.8\<close> and whose Euclidean
  distance is strictly below the limit; the depth of particle \<open>j\<close> is not looked at. Every
  edge drawn belongs to such a pair and has the stroke alpha
  \<open>(1 - distance / limit) * 0.25\<close>. The limit is \<^verbatim>\<open>connectionDistance\<close> times
  \<^verbatim>\<open>scaleRatio\<close>, times 0.6 when the text is not empty.
\<close>

theorem connection_graph_eligibility:
  "(i < j \<and> j < length ps \<longrightarrow>
      ((\<exists>e \<in> set (connections ps (distLimit config cw)). e_i e = i \<and> e_j e = j) \<longleftrightarrow>
       pz (ps ! i) \<le> 1.8 \<and> pair_distance ps i j < distLimit config cw)) \<and>
   (e \<in> set (connections ps (distLimit config cw)) \<longleftrightarrow>
      (\<exists>i j. i < j \<and> j < length ps \<and> pz (ps ! i) \<le> 1.8 \<and>
         pair_distance ps i j < distLimit config cw \<and>
         e = \<lparr>e_i = i, e_j = j,
               e_opacity = 1 - pair_distance ps i j / distLimit config cw,
               e_alpha = (1 - pair_distance ps i j / distLimit config cw) * 0.25\<rparr>)) \<and>
   distLimit config cw =
     cfg_connectionDistance config * scaleRatio cw * (if cfg_text config \<noteq> [] then 0.6 else 1)"
proof (intro conjI impI)
  let ?l = "distLimit config cw"
  assume ij: "i < j \<and> j < length ps"
  show "(\<exists>e \<in> set (connections ps ?l). e_i e = i \<and> e_j e = j) \<longleftrightarrow>
       pz (ps ! i) \<le> 1.8 \<and> pair_distance ps i j < ?l"
  proof
    assume "\<exists>e \<in> set (connections ps ?l). e_i e = i \<and> e_j e = j"
    then obtain e where e: "e \<in> set (connections ps ?l)" "e_i e = i" "e_j e = j" by blast
    from e(1) obtain i' j' where
      "pz (ps ! i') \<le> 1.8" "pair_distance ps i' j' < ?l" "e = edge_of ps ?l i' j'"
      unfolding connections_mem by blast
    moreover from this e(2,3) have "i' = i" "j' = j"
      by (simp_all add: edge_of_def Let_def)
    ultimately show "pz (ps ! i) \<le> 1.8 \<and> pair_distance ps i j < ?l" by simp
  next
    assume "pz (ps ! i) \<le> 1.8 \<and> pair_distance ps i j < ?l"
    then have "edge_of ps ?l i j \<in> set (connections ps ?l)"
      using ij unfolding connections_mem by blast
    moreover have "e_i (edge_of ps ?l i j) = i" "e_j (edge_of ps ?l i j) = j"
      by (simp_all add: edge_of_def Let_def)
    ultimately show "\<exists>e \<in> set (connections ps ?l). e_i e = i \<and> e_j e = j" by blast
  qed
next
  show "e \<in> set (connections ps (distLimit config cw)) \<longleftrightarrow>
      (\<exists>i j. i < j \<and> j < length ps \<and> pz (ps ! i) \<le> 1.8 \<and>
         pair_distance ps i j < distLimit config cw \<and>
         e = \<lparr>e_i = i, e_j = j,
               e_opacity = 1 - pair_distance ps i j / distLimit config cw,
               e_alpha = (1 - pair_distance ps i j / distLimit config cw) * 0.25\<rparr>)"
    by (simp add: connections_mem edge_of_def Let_def)
next
  show "distLimit config cw =
     cfg_connectionDistance config * scaleRatio cw * (if cfg_text config \<noteq> [] then 0.6 else 1)"
    by (rule distLimit_eq)
qed

text \<open>
  At a concrete input: the default configuration on a canvas 1920 wide has the limit
  120; the particle at index 1 is deep (\<open>z = 2\<close>), the one at index 0 is not, they are
  3 apart, and the edge between them is drawn.
\<close>

theorem connection_graph_eligibility_witness:
  "(let ps = [particle_at 0 0 1, particle_at 3 0 2]
    in (0::nat) < 1 \<and> 1 < length ps \<and> pz (ps ! 0) \<le> 1.8 \<and> pz (ps ! 1) > 1.8 \<and>
       pair_distance ps 0 1 < distLimit defaultConfig 1920 \<and>
       distLimit defaultConfig 1920 = 120 \<and>
       (\<exists>e \<in> set (connections ps (distLimit defaultConfig 1920)). e_i e = 0 \<and> e_j e = 1))"
proof -
  let ?ps = "[particle_at 0 0 1, particle_at 3 0 2]"
  have l: "distLimit defaultConfig 1920 = 120"
    by (simp add: distLimit_def defaultConfig_def scaleRatio_def)
  have d: "pair_distance ?ps 0 1 = 3"
    by (simp add: pair_distance_same_row particle_at_def)
  have z: "pz (?ps ! 0) \<le> 1.8" "pz (?ps ! 1) > 1.8"
    by (simp_all add: particle_at_def)
  show ?thesis
    using connection_graph_eligibility [of 0 1 ?ps defaultConfig 1920] l d z
    by (simp add: Let_def)
qed

section \<open>Two particles on a line\<close>

lemma connections_pair:
  "connections [a, b] l =
     (if pz a > 1.8 then []
      else if pair_distance [a, b] 0 1 < l then [edge_of [a, b] l 0 1] else [])"
proof -
  have "[0 ..< length [a, b]] = [0, 1]" "[Suc 0 ..< length [a, b]] = [1]"
    "[Suc 1 ..< length [a, b]] = []"
    by (simp_all add: upt_rec)
  then show ?thesis
    by (simp add: connections_def connect_inner_step del: connect_inner.simps(2))
qed

text \<open>
  Claim C4, as the code has it. Two particles lie at \<open>(0, 0)\<close> and \<open>(d, 0)\<close> with
  \<open>0 \<le> d\<close>, in either order in the collection. If \<open>d < limit\<close> and the lower-indexed
  particle has \<open>z \<le> 1.8\<close> (so in particular if both have), the connection loop draws
  exactly one edge, between them, with \<^verbatim>\<open>opacity = 1 - d / limit\<close> (and stroke alpha
  \<^verbatim>\<open>opacity * 0.25\<close>); otherwise, that is for \<open>d \<ge> limit\<close> or when the lower-indexed
  particle has \<open>z > 1.8\<close>, it draws none. The depth of the higher-indexed particle does
  not occur.
\<close>

theorem two_particle_edge:
  "py a = 0 \<and> py b = 0 \<and> ((px a = 0 \<and> px b = d) \<or> (px a = d \<and> px b = 0)) \<and> 0 \<le> d \<longrightarrow>
     connections [a, b] l =
       (if pz a \<le> 1.8 \<and> d < l
        then [\<lparr>e_i = 0, e_j = 1, e_opacity = 1 - d / l, e_alpha = (1 - d / l) * 0.25\<rparr>]
        else [])"
proof
  assume h: "py a = 0 \<and> py b = 0 \<and> ((px a = 0 \<and> px b = d) \<or> (px a = d \<and> px b = 0)) \<and> 0 \<le> d"
  then have "pair_distance [a, b] 0 1 = d"
    by (auto simp add: pair_distance_same_row)
  then show "connections [a, b] l =
       (if pz a \<le> 1.8 \<and> d < l
        then [\<lparr>e_i = 0, e_j = 1, e_opacity = 1 - d / l, e_alpha = (1 - d / l) * 0.25\<rparr>]
        else [])"
    by (simp add: connections_pair edge_of_def Let_def)
qed

theorem two_particle_edge_witness:
  "(let a = particle_at 0 0 1; b = particle_at 3 0 (3 / 2)
    in py a = 0 \<and> py b = 0 \<and> px a = 0 \<and> px b = 3 \<and>
       connections [a, b] 6 = [\<lparr>e_i = 0, e_j = 1, e_opacity = 1 / 2, e_alpha = 1 / 8\<rparr>] \<and>
       connections [b, a] 6 = [\<lparr>e_i = 0, e_j = 1, e_opacity = 1 / 2, e_alpha = 1 / 8\<rparr>] \<and>
       connections [a, b] 3 = [] \<and>
       connections [particle_at 0 0 2, b] 6 = [])"
proof -
  let ?a = "particle_at 0 0 1"
  let ?b = "particle_at 3 0 (3 / 2)"
  let ?c = "particle_at 0 0 2"
  have f: "py ?a = 0" "py ?b = 0" "px ?a = 0" "px ?b = 3" "pz ?a = 1" "pz ?b = 3 / 2"
    "py ?c = 0" "px ?c = 0" "pz ?c = 2"
    by (simp_all add: particle_at_def)
  show ?thesis
    using two_particle_edge [of ?a ?b 3 6] two_particle_edge [of ?b ?a 3 6]
      two_particle_edge [of ?a ?b 3 3] two_particle_edge [of ?c ?b 3 6] f
    by (simp add: Let_def)
qed

text \<open>
  The claim as the specification words it (no edge if either particle has \<open>z > 1.8\<close>)
  fails: here the particle at index 1 has \<open>z = 2\<close>, and the edge is drawn.
\<close>

theorem two_particle_edge_counterexample:
  "pz (particle_at 3 0 2) > 1.8 \<and>
   connections [particle_at 0 0 1, particle_at 3 0 2] 6
     = [\<lparr>e_i = 0, e_j = 1, e_opacity = 1 / 2, e_alpha = 1 / 8\<rparr>]"
proof -
  have "pair_distance [particle_at 0 0 1, particle_at 3 0 2] 0 1 = 3"
    by (simp add: pair_distance_same_row particle_at_def)
  then show ?thesis
    by (simp add: connections_pair edge_of_def Let_def particle_at_def)
qed

section \<open>A surface of width zero\<close>

lemma Particle_new_position:
  "px (fst (Particle_new w h style g)) = g 0 * w"
  "py (fst (Particle_new w h style g)) = g (Suc 0) * h"
  by (simp_all add: Particle_new_def resetVelocity_def random_def Let_def)

lemma Particle_new_zero_width:
  assumes "unit_rng g" "0 \<le> h"
  shows "placed_on_zero_width h (fst (Particle_new 0 h style g))"
proof -
  have "0 \<le> g (Suc 0) * h" "g (Suc 0) * h \<le> h"
    using unit_rngD [OF assms(1), of "Suc 0"] assms(2) mult_right_mono [of "g (Suc 0)" 1 h]
    by simp_all
  then show ?thesis
    by (simp add: placed_on_zero_width_def Particle_new_position)
qed

lemma scaleRatio_zero: "scaleRatio 0 = 0"
  by (simp add: scaleRatio_def)

lemma update_morph_zero_width:
  "px (fst (update_morph 0 0 tx ty p g)) = px p"
  "py (fst (update_morph 0 0 tx ty p g)) = py p"
  "angle (fst (update_morph 0 0 tx ty p g)) = angle p"
  "radius (fst (update_morph 0 0 tx ty p g)) = radius p"
  by (simp_all add: update_morph_def Let_def random_def)

lemma update_vortex_zero_width:
  "angle (update_vortex 0 h 0 p) = angle p" "radius (update_vortex 0 h 0 p) = radius p"
  "px (update_vortex 0 h 0 p) = cos (angle p) * radius p"
  "py (update_vortex 0 h 0 p) = h / 2 + sin (angle p) * radius p"
  by (simp_all add: update_vortex_def Let_def)

lemma update_nova_angle_radius:
  "angle (fst (update_nova w h es p g)) = angle p"
  "radius (fst (update_nova w h es p g)) = radius p"
  by (simp_all add: update_nova_def Let_def random_def)

lemma update_linear_angle_radius:
  "angle (update_linear w h es style p) = angle p"
  "radius (update_linear w h es style p) = radius p"
  by (simp_all add: update_linear_def Let_def)

lemma update_nova_zero_width:
  assumes "placed_on_zero_width h p"
  shows "px (fst (update_nova 0 h 0 p g)) = px p" "py (fst (update_nova 0 h 0 p g)) = py p"
  using assms by (simp_all add: update_nova_def Let_def placed_on_zero_width_def)

lemma update_linear_zero_width:
  assumes "placed_on_zero_width h p"
  shows "px (update_linear 0 h 0 style p) = px p" "py (update_linear 0 h 0 style p) = py p"
  using assms by (simp_all add: update_linear_def Let_def placed_on_zero_width_def)

lemma placed_on_zero_width_targets:
  "placed_on_zero_width h (p\<lparr>targetX := a, targetY := b\<rparr>) = placed_on_zero_width h p"
  by (simp add: placed_on_zero_width_def)

lemma update_zero_width_angle_radius:
  "angle (fst (update 0 h spd 0 style p g)) = angle p"
  "radius (fst (update 0 h spd 0 style p g)) = radius p"
  by (simp_all add: update_def Let_def update_morph_zero_width update_vortex_zero_width
      update_nova_angle_radius update_linear_angle_radius split: option.splits)

lemma update_zero_width:
  assumes "placed_on_zero_width h p"
    and "style \<noteq> Vortex \<or> (targetX p \<noteq> None \<and> targetY p \<noteq> None)"
  shows "px (fst (update 0 h spd 0 style p g)) = px p"
    and "py (fst (update 0 h spd 0 style p g)) = py p"
    and "placed_on_zero_width h (fst (update 0 h spd 0 style p g))"
proof -
  let ?q = "fst (update 0 h spd 0 style p g)"
  have "px ?q = px p \<and> py ?q = py p"
    using assms(2)
    by (auto simp add: update_def Let_def update_morph_zero_width
        update_nova_zero_width [OF assms(1)] update_linear_zero_width [OF assms(1)]
        split: option.splits)
  then show "px ?q = px p" "py ?q = py p" "placed_on_zero_width h ?q"
    using assms(1) by (simp_all add: placed_on_zero_width_def)
qed

lemma animate_particles_zero_width_angle_radius:
  "map angle (fst (animate_particles tp 0 h spd 0 style i k ps g)) = map angle ps \<and>
   map radius (fst (animate_particles tp 0 h spd 0 style i k ps g)) = map radius ps"
proof (induction ps arbitrary: i k g)
  case Nil
  then show ?case by simp
next
  case (Cons p ps)
  show ?case
    using Cons.IH by (simp add: Let_def split_beta update_zero_width_angle_radius)
qed

lemma animate_particles_zero_width:
  "style \<noteq> Vortex \<Longrightarrow> \<forall>p \<in> set ps. placed_on_zero_width h p \<Longrightarrow>
     map px (fst (animate_particles tp 0 h spd 0 style i k ps g)) = map px ps \<and>
     map py (fst (animate_particles tp 0 h spd 0 style i k ps g)) = map py ps \<and>
     (\<forall>p \<in> set (fst (animate_particles tp 0 h spd 0 style i k ps g)).
        placed_on_zero_width h p)"
proof (induction ps arbitrary: i k g)
  case Nil
  then show ?case by simp
next
  case (Cons p ps)
  have p: "\<And>a b. placed_on_zero_width h (p\<lparr>targetX := a, targetY := b\<rparr>)"
    using Cons.prems by (simp add: placed_on_zero_width_targets)
  have rest: "\<forall>p \<in> set ps. placed_on_zero_width h p"
    using Cons.prems by simp
  have st: "\<And>q. style \<noteq> Vortex \<or> (targetX q \<noteq> None \<and> targetY q \<noteq> None)"
    using Cons.prems(1) by simp
  show ?case
    using Cons.IH [OF Cons.prems(1) rest] update_zero_width [OF p st]
    by (simp add: Let_def split_beta)
qed

lemma frames_zero_width_angle_radius:
  assumes "res_width (cfg_resolution config) = 0"
  shows "map angle (fst (frames n config tp ps g)) = map angle ps \<and>
         map radius (fst (frames n config tp ps g)) = map radius ps"
proof (induction n arbitrary: ps g)
  case 0
  then show ?case by simp
next
  case (Suc n)
  let ?h = "real (res_height (cfg_resolution config))"
  let ?a = "animate_particles tp 0 ?h (cfg_speed config) 0 (cfg_style config) 0 0 ps g"
  from animate_particles_zero_width_angle_radius [of tp ?h "cfg_speed config" "cfg_style config" 0 0 ps g]
  have a: "map angle (fst ?a) = map angle ps" "map radius (fst ?a) = map radius ps"
    by blast+
  from Suc.IH [of "fst ?a" "snd ?a"] a show ?case
    by (simp add: animate_def Let_def split_beta assms scaleRatio_zero)
qed

lemma frames_zero_width:
  assumes "res_width (cfg_resolution config) = 0" and "cfg_style config \<noteq> Vortex"
  shows "\<forall>p \<in> set ps. placed_on_zero_width (real (res_height (cfg_resolution config))) p \<Longrightarrow>
     map px (fst (frames n config tp ps g)) = map px ps \<and>
     map py (fst (frames n config tp ps g)) = map py ps"
proof (induction n arbitrary: ps g)
  case 0
  then show ?case by simp
next
  case (Suc n)
  let ?h = "real (res_height (cfg_resolution config))"
  let ?a = "animate_particles tp 0 ?h (cfg_speed config) 0 (cfg_style config) 0 0 ps g"
  from animate_particles_zero_width [OF assms(2) Suc.prems]
  have a: "map px (fst ?a) = map px ps" "map py (fst ?a) = map py ps"
    "\<forall>p \<in> set (fst ?a). placed_on_zero_width ?h p"
    by blast+
  from Suc.IH [OF a(3)] a(1,2) show ?case
    by (simp add: animate_def Let_def split_beta assms scaleRatio_zero)
qed

lemma connections_positive_limit: "e \<in> set (connections ps l) \<Longrightarrow> 0 < l"
proof -
  assume "e \<in> set (connections ps l)"
  then obtain i j where "pair_distance ps i j < l"
    unfolding connections_mem by blast
  moreover have "0 \<le> pair_distance ps i j"
    by (simp add: pair_distance_def Let_def)
  ultimately show ?thesis by simp
qed

lemma distLimit_zero_width: "distLimit config 0 = 0"
  by (simp add: distLimit_def Let_def scaleRatio_zero)

lemma connections_zero_limit: "connections ps 0 = []"
proof (rule ccontr)
  assume "connections ps 0 \<noteq> []"
  then obtain e where "e \<in> set (connections ps 0)"
    by (cases "connections ps 0") auto
  from connections_positive_limit [OF this] show False by simp
qed

text \<open>
  Claim C9, as the code has it. The scale ratio is the canvas width divided by the
  constant 1920, so it is 0 on a surface of width 0, whatever the height. On such a
  surface every particle the render effect builds keeps its \<^verbatim>\<open>angle\<close> and \<^verbatim>\<open>radius\<close>
  over any number of frames, and for every style but vortex it keeps the position it was
  constructed with, with morph targets assigned from any text points; the connection
  limit is 0 and no edge is drawn. One update on a surface of width 0 leaves the position
  of a particle placed on it unchanged when the style is not vortex or the particle has a
  morph target. One update of a vortex particle without a morph target leaves its angle
  and radius unchanged and sets its position to the centre plus \<^verbatim>\<open>radius\<close> times
  \<open>(cos angle, sin angle)\<close>, the same point at every update. And the connection loop
  draws an edge, which is where it divides by the limit, only when the limit is positive.
\<close>

theorem zero_width_no_motion:
  "scaleRatio cw = real cw / 1920 \<and> scaleRatio 0 = 0 \<and>
   (res_width (cfg_resolution config) = 0 \<and> unit_rng g \<longrightarrow>
      (let h = real (res_height (cfg_resolution config));
           ps0 = fst (initParticles config 0 h [] g);
           ps = fst (render_effect n config textPoints [] g)
       in map angle ps = map angle ps0 \<and> map radius ps = map radius ps0 \<and>
          (cfg_style config \<noteq> Vortex \<longrightarrow> map px ps = map px ps0 \<and> map py ps = map py ps0) \<and>
          distLimit config 0 = 0 \<and> connections ps (distLimit config 0) = [])) \<and>
   (placed_on_zero_width h p \<and>
    (style \<noteq> Vortex \<or> (targetX p \<noteq> None \<and> targetY p \<noteq> None)) \<longrightarrow>
      (let q = fst (update 0 h spd (scaleRatio 0) style p g)
       in px q = px p \<and> py q = py p)) \<and>
   ((targetX v = None \<or> targetY v = None) \<and> 0 < pz v \<longrightarrow>
      (let q = fst (update 0 h spd (scaleRatio 0) Vortex v g)
       in angle q = angle v \<and> radius q = radius v \<and>
          px q = cos (angle v) * radius v \<and> py q = h / 2 + sin (angle v) * radius v)) \<and>
   (e \<in> set (connections qs l) \<longrightarrow> 0 < l)"
proof (intro conjI impI)
  show "scaleRatio cw = real cw / 1920" by (simp add: scaleRatio_def)
  show "scaleRatio 0 = 0" by (rule scaleRatio_zero)
next
  let ?h = "real (res_height (cfg_resolution config))"
  let ?init = "initParticles config 0 ?h [] g"
  let ?ps = "fst (frames n config textPoints (fst ?init) (snd ?init))"
  assume a: "res_width (cfg_resolution config) = 0 \<and> unit_rng g"
  have run: "fst (render_effect n config textPoints [] g) = ?ps"
    using a by (simp add: render_effect_def Let_def split_beta)
  have "\<forall>g. unit_rng g \<longrightarrow> placed_on_zero_width ?h (fst (Particle_new 0 ?h (cfg_style config) g))"
    by (simp add: Particle_new_zero_width)
  from initParticles_invariant [OF this, of g "[]"] a
  have placed: "\<forall>p \<in> set (fst ?init). placed_on_zero_width ?h p" by simp
  have ar: "map angle ?ps = map angle (fst ?init) \<and> map radius ?ps = map radius (fst ?init)"
    using a by (intro frames_zero_width_angle_radius) simp
  have pos: "cfg_style config \<noteq> Vortex \<Longrightarrow>
      map px ?ps = map px (fst ?init) \<and> map py ?ps = map py (fst ?init)"
    using a placed by (intro frames_zero_width) simp_all
  show "let h = real (res_height (cfg_resolution config));
           ps0 = fst (initParticles config 0 h [] g);
           ps = fst (render_effect n config textPoints [] g)
       in map angle ps = map angle ps0 \<and> map radius ps = map radius ps0 \<and>
          (cfg_style config \<noteq> Vortex \<longrightarrow> map px ps = map px ps0 \<and> map py ps = map py ps0) \<and>
          distLimit config 0 = 0 \<and> connections ps (distLimit config 0) = []"
    using ar pos
    by (simp add: Let_def run distLimit_zero_width connections_zero_limit)
next
  assume "placed_on_zero_width h p \<and>
    (style \<noteq> Vortex \<or> (targetX p \<noteq> None \<and> targetY p \<noteq> None))"
  then show "let q = fst (update 0 h spd (scaleRatio 0) style p g)
       in px q = px p \<and> py q = py p"
    by (simp add: Let_def scaleRatio_zero update_zero_width)
next
  assume "(targetX v = None \<or> targetY v = None) \<and> 0 < pz v"
  then show "let q = fst (update 0 h spd (scaleRatio 0) Vortex v g)
       in angle q = angle v \<and> radius q = radius v \<and>
          px q = cos (angle v) * radius v \<and> py q = h / 2 + sin (angle v) * radius v"
    by (simp add: Let_def scaleRatio_zero update_no_target update_vortex_zero_width)
next
  assume "e \<in> set (connections qs l)"
  then show "0 < l" by (rule connections_positive_limit)
qed

text \<open>
  At a concrete input, with the draws 1/2, 1/4, 1/8 and so on: a surface 0 wide and 1080
  high, three nova particles morphing towards one text point over two frames; one update
  of a morphing particle in the vortex style; and one update of the vortex particle the
  constructor builds, which lies at \<open>(0, 270)\<close> and has radius 270.
\<close>

theorem zero_width_no_motion_witness:
  "(let config = defaultConfig\<lparr>cfg_resolution := \<lparr>res_width = 0, res_height = 1080\<rparr>,
                               cfg_style := Nova, cfg_particleCount := 3, cfg_text := ''A''\<rparr>;
        ps0 = fst (initParticles config 0 1080 [] dyadic_rng);
        ps = fst (render_effect 2 config [(10, 20)] [] dyadic_rng);
        p = (fst (Particle_new 0 1080 Vortex dyadic_rng))\<lparr>targetX := Some 10, targetY := Some 20\<rparr>;
        q = fst (update 0 1080 1 (scaleRatio 0) Vortex p dyadic_rng);
        v = fst (Particle_new 0 1080 Vortex dyadic_rng);
        u = fst (update 0 1080 1 (scaleRatio 0) Vortex v dyadic_rng);
        qs = [particle_at 0 0 1, particle_at 3 0 2]
    in res_width (cfg_resolution config) = 0 \<and> unit_rng dyadic_rng \<and>
       cfg_style config \<noteq> Vortex \<and>
       map px ps = map px ps0 \<and> map py ps = map py ps0 \<and>
       map angle ps = map angle ps0 \<and> map radius ps = map radius ps0 \<and>
       placed_on_zero_width 1080 p \<and> targetX p \<noteq> None \<and> targetY p \<noteq> None \<and>
       px q = px p \<and> py q = py p \<and>
       targetX v = None \<and> 0 < pz v \<and> radius v = 270 \<and>
       angle u = angle v \<and> radius u = 270 \<and>
       px u = cos (angle v) * 270 \<and> py u = 540 + sin (angle v) * 270 \<and>
       edge_of qs 6 0 1 \<in> set (connections qs 6) \<and> (0::real) < 6)"
proof -
  let ?config = "defaultConfig\<lparr>cfg_resolution := \<lparr>res_width = 0, res_height = 1080\<rparr>,
                               cfg_style := Nova, cfg_particleCount := 3, cfg_text := ''A''\<rparr>"
  let ?v = "fst (Particle_new 0 1080 Vortex dyadic_rng)"
  let ?p = "?v\<lparr>targetX := Some 10, targetY := Some 20\<rparr>"
  let ?qs = "[particle_at 0 0 1, particle_at 3 0 2]"
  have c: "res_width (cfg_resolution ?config) = 0" "res_height (cfg_resolution ?config) = 1080"
    "cfg_style ?config \<noteq> Vortex"
    by simp_all
  have p: "placed_on_zero_width 1080 ?p" "targetX ?p \<noteq> None" "targetY ?p \<noteq> None"
    using Particle_new_zero_width [OF unit_rng_dyadic_rng, of 1080 Vortex]
    by (simp_all add: placed_on_zero_width_targets)
  have v: "targetX ?v = None" "pz ?v = 3 / 4" "radius ?v = 270"
    using real_sqrt_abs2 [of 270]
    by (simp_all add: Particle_new_def resetVelocity_def random_def dyadic_rng_def Let_def)
  have "pair_distance ?qs 0 1 = 3"
    by (simp add: pair_distance_same_row particle_at_def)
  then have e: "edge_of ?qs 6 0 1 \<in> set (connections ?qs 6)"
    by (simp add: connections_pair particle_at_def)
  show ?thesis
    using zero_width_no_motion [of 0 ?config dyadic_rng 2 "[(10, 20)]" 1080 ?p Vortex 1 ?v
        "edge_of ?qs 6 0 1" ?qs 6] c p v e unit_rng_dyadic_rng
    by (simp add: Let_def scaleRatio_zero)
qed

text \<open>
  The claim as the specification words it fails. With height 0 and width 1920 the scale
  ratio is 1: the network particle built from draws of one half starts at \<open>x = 960\<close>
  and its first update moves it. And on a surface of width 0, a particle that an earlier,
  wider surface left at \<open>x = 1500\<close> (\<^verbatim>\<open>initParticles\<close> keeps such particles) is wrapped
  to \<open>x = -50\<close> by its update.
\<close>

theorem zero_width_no_motion_counterexample:
  "px (fst (Particle_new 1920 0 Network half_rng)) = 960 \<and>
   px (fst (update 1920 0 1 (scaleRatio 1920) Network
              (fst (Particle_new 1920 0 Network half_rng)) half_rng)) = 19193 / 20 \<and>
   px (fst (update 0 0 1 (scaleRatio 0) Network (particle_at 1500 0 1) half_rng)) = - 50"
proof -
  let ?p = "fst (Particle_new 1920 0 Network half_rng)"
  have p: "px ?p = 960" "vx ?p = - (7 / 20)" "targetX ?p = None"
    by (simp_all add: Particle_new_def resetVelocity_def random_def Let_def half_rng_def)
  have "px (fst (update 1920 0 1 (scaleRatio 1920) Network ?p half_rng)) = 19193 / 20"
    using p by (simp add: update_no_target update_linear_def Let_def scaleRatio_def)
  moreover have "px (fst (update 0 0 1 (scaleRatio 0) Network (particle_at 1500 0 1) half_rng))
      = - 50"
    by (simp add: update_no_target update_linear_def Let_def scaleRatio_def particle_at_def)
  ultimately show ?thesis using p(1) by simp
qed

section \<open>The text sampler\<close>
















end
